theory Spec2Isabelle
  imports Complex_Main "HOL-Library.AList" "HOL-Library.Log_Nat"
begin

section \<open>Python values, exceptions and the host\<close>

text \<open>
  The module \<open>gmx.py\<close> builds command lines for an external tool, writes a batch script
  and plots data files. Strings are \<open>string\<close>, a Python \<open>dict\<close> is an association list in
  insertion (iteration) order, \<open>None\<close>-able parameters are \<open>option\<close>s. The values that
  occur in the scheduler dictionary are \<open>None\<close>, a \<open>str\<close>, or a list of \<open>str\<close>.
\<close>

datatype pyval = PNone | PStr string | PList "string list"

text \<open>
  Exceptions as values. \<open>ValueError\<close>, \<open>TypeError\<close>, \<open>KeyError\<close>, \<open>NameError\<close> and
  \<open>IndexError\<close> are raised by the module's own statements; \<open>LibError\<close> is any exception
  raised inside a library call (\<open>subprocess.run\<close>, \<open>open\<close>, \<open>file.write\<close>, \<open>np.loadtxt\<close>,
  matplotlib), identified by the text the host gives it.
\<close>

datatype exn =
    ValueError string
  | TypeError string
  | KeyError string
  | NameError string
  | IndexError string
  | LibError string

text \<open>The \<open>CompletedProcess\<close> returned by \<open>subprocess.run\<close>.\<close>

record completed =
  returncode :: int
  stdout :: string
  stderr :: string

text \<open>
  The host is everything outside the module: how a process launch, the opening of a file
  for writing and the write itself answer, and how Python prints a list under \<open>%s\<close>.
  \<open>run cmd cwd input capture\<close> is \<open>subprocess.run\<close>; it raises (\<open>Inl\<close>) or returns the
  completed process whatever its return code.
\<close>

record host =
  run :: "string list \<Rightarrow> string option \<Rightarrow> string option \<Rightarrow> bool \<Rightarrow> exn + completed"
  open_w :: "string \<Rightarrow> exn option"
  file_write :: "string \<Rightarrow> string \<Rightarrow> exn option"
  list_repr :: "string list \<Rightarrow> string"

text \<open>
  The effects a call has had on the outside, in the order they happened: a
  \<open>subprocess.run\<close> that returned (command, working directory, standard input), a
  \<open>print\<close>, a file opened for writing, and a text written to it.
\<close>

datatype effect =
    Ran "string list" "string option" "string option"
  | Printed string
  | Created string
  | Wrote string string

section \<open>String helpers of Python\<close>

text \<open>\<open>sep.join(xs)\<close>.\<close>

fun str_join :: "string \<Rightarrow> string list \<Rightarrow> string" where
  "str_join sep [] = []"
| "str_join sep [x] = x"
| "str_join sep (x # y # ys) = x @ sep @ str_join sep (y # ys)"

definition newline :: string where
  "newline = [CHR 0x0A]"

text \<open>\<open>"%s" % v\<close> for the values of the scheduler dictionary.\<close>

fun pct_s :: "host \<Rightarrow> pyval \<Rightarrow> string" where
  "pct_s h PNone = ''None''"
| "pct_s h (PStr s) = s"
| "pct_s h (PList xs) = list_repr h xs"

text \<open>\<open>d[k]\<close> on a dictionary: \<open>KeyError\<close> when the key is absent.\<close>

definition getitem :: "(string \<times> pyval) list \<Rightarrow> string \<Rightarrow> exn + pyval" where
  "getitem d k = (case map_of d k of None \<Rightarrow> Inl (KeyError k) | Some v \<Rightarrow> Inr v)"

text \<open>Sequencing of statements that may raise.\<close>

definition bind_exn :: "exn + 'a \<Rightarrow> ('a \<Rightarrow> exn + 'b) \<Rightarrow> exn + 'b" where
  "bind_exn m f = (case m of Inl e \<Rightarrow> Inl e | Inr x \<Rightarrow> f x)"

section \<open>\<open>gmx\<close>: the command line (lines 24--39)\<close>

text \<open>
  \<open>cmd = ["gmx", executable]\<close>, replaced by \<open>['mpirun', "gmx_mpi", executable]\<close> for
  \<open>mdrun\<close>; then \<open>cmd.extend(arguments)\<close> and one \<open>cmd.extend([flag, file])\<close> per item of
  \<open>inputs\<close> and of \<open>outputs\<close>.
\<close>

definition build_cmd ::
  "string \<Rightarrow> string list \<Rightarrow> (string \<times> string) list \<Rightarrow> (string \<times> string) list \<Rightarrow> string list" where
  "build_cmd executable arguments inputs outputs =
     (let cmd0 = [''gmx'', executable];
          cmd1 = (if executable = ''mdrun'' then [''mpirun'', ''gmx_mpi'', executable] else cmd0);
          cmd2 = cmd1 @ arguments;
          cmd3 = fold (\<lambda>(flag, file) cmd. cmd @ [flag, file]) inputs cmd2;
          cmd4 = fold (\<lambda>(flag, file) cmd. cmd @ [flag, file]) outputs cmd3
      in cmd4)"

section \<open>\<open>gmx\<close>: the scheduler configuration (lines 61--72)\<close>

definition default_schdlr :: "string \<Rightarrow> string \<Rightarrow> (string \<times> pyval) list" where
  "default_schdlr name ensemble =
     [(''job_name'', PStr (name @ ensemble)),
      (''output'', PStr (ensemble @ ''.slurm.log'')),
      (''partition'', PStr ''andromeda''),
      (''nodes'', PStr ''1-12''),
      (''ntasks_per_node'', PStr ''1''),
      (''ntasks'', PStr ''10''),
      (''modules'', PList [''module load mpi/mpich-x86_64'',
                           ''module load gromacs/2023.5-plumed''])]"

text \<open>
  \<open>if scheduler is not None: for key in scheduler: schdlr[key] = scheduler[key]\<close>.
  The items of \<open>scheduler\<close> are visited in iteration order; \<open>AList.update\<close> is the
  assignment \<open>schdlr[key] = v\<close> (in place for a present key, appended for a new one).
\<close>

definition merge_schdlr ::
  "(string \<times> pyval) list \<Rightarrow> (string \<times> pyval) list option \<Rightarrow> (string \<times> pyval) list" where
  "merge_schdlr schdlr scheduler =
     (case scheduler of
        None \<Rightarrow> schdlr
      | Some ov \<Rightarrow> fold (\<lambda>(key, v) s. AList.update key v s) ov schdlr)"

section \<open>\<open>gmx\<close>: the batch script (lines 74--88)\<close>

definition directive :: "host \<Rightarrow> string \<Rightarrow> pyval \<Rightarrow> string" where
  "directive h opt v = ''#SBATCH --'' @ opt @ ''='' @ pct_s h v"

text \<open>\<open>(directive) if v is not None else ''\<close>.\<close>

definition directive_or_empty :: "host \<Rightarrow> string \<Rightarrow> pyval \<Rightarrow> string" where
  "directive_or_empty h opt v = (if v \<noteq> PNone then directive h opt v else [])"

text \<open>\<open>[...] + schdlr['modules'] + [...]\<close>: only a list can be added to a list.\<close>

fun as_list :: "pyval \<Rightarrow> exn + string list" where
  "as_list (PList xs) = Inr xs"
| "as_list PNone = Inl (TypeError ''can only concatenate list (not \"NoneType\") to list'')"
| "as_list (PStr s) = Inl (TypeError ''can only concatenate list (not \"str\") to list'')"

definition batch_script :: "host \<Rightarrow> (string \<times> pyval) list \<Rightarrow> string list \<Rightarrow> exn + string list" where
  "batch_script h schdlr cmd =
     bind_exn (getitem schdlr ''job_name'') (\<lambda>job_name.
     bind_exn (getitem schdlr ''output'') (\<lambda>output.
     bind_exn (getitem schdlr ''partition'') (\<lambda>partition.
     bind_exn (getitem schdlr ''nodes'') (\<lambda>nodes.
     bind_exn (getitem schdlr ''ntasks'') (\<lambda>ntasks.
     bind_exn (getitem schdlr ''ntasks_per_node'') (\<lambda>ntasks_per_node.
     bind_exn (getitem schdlr ''modules'') (\<lambda>modules.
     bind_exn (as_list modules) (\<lambda>mods.
       Inr ([''#!/bin/bash'',
             '''',
             directive h ''job-name'' job_name,
             directive h ''output'' output,
             directive_or_empty h ''partition'' partition,
             directive_or_empty h ''nodes'' nodes,
             directive h ''ntasks'' ntasks,
             directive_or_empty h ''ntasks-per-node'' ntasks_per_node,
             '''',
             ''# Required modules''] @ mods @
            ['''',
             ''# Run the molecular dynamics simulation'',
             str_join '' '' cmd])))))))))"

section \<open>\<open>gmx\<close> (lines 8--99)\<close>

text \<open>
  The result is the exception raised or the normal return (\<open>gmx\<close> returns \<open>None\<close>),
  together with the effects that happened before.
\<close>

definition gmx ::
  "host \<Rightarrow> string \<Rightarrow> string list \<Rightarrow> (string \<times> string) list \<Rightarrow> (string \<times> string) list \<Rightarrow>
   string option \<Rightarrow> string option \<Rightarrow> string option \<Rightarrow> (string \<times> pyval) list option \<Rightarrow>
   bool \<Rightarrow> string option \<Rightarrow> (exn + unit) \<times> effect list" where
  "gmx h executable arguments inputs outputs name path ensemble scheduler wait stdin =
     (let cmd = build_cmd executable arguments inputs outputs in
      if executable \<noteq> ''mdrun'' then
        (case run h cmd path stdin True of
           Inl e \<Rightarrow> (Inl e, [])
         | Inr process \<Rightarrow>
             (Inr (), [Ran cmd path stdin, Printed (stdout process), Printed (stderr process)]))
      else
        (case ensemble of
           None \<Rightarrow> (Inl (ValueError ''ensemble must be provided.''), [])
         | Some ens \<Rightarrow>
        (case name of
           None \<Rightarrow> (Inl (ValueError ''name must be provided.''), [])
         | Some nm \<Rightarrow>
        (case path of
           None \<Rightarrow> (Inl (ValueError ''path must be provided.''), [])
         | Some pth \<Rightarrow>
        (let schdlr = merge_schdlr (default_schdlr nm ens) scheduler in
         case batch_script h schdlr cmd of
           Inl e \<Rightarrow> (Inl e, [])
         | Inr script \<Rightarrow>
        (let fname = pth @ ''/'' @ ens @ ''.slurm'';
             body = str_join newline script in
         case open_w h fname of
           Some e \<Rightarrow> (Inl e, [])
         | None \<Rightarrow>
        (case file_write h fname body of
           Some e \<Rightarrow> (Inl e, [Created fname])
         | None \<Rightarrow>
        (let sbmttr_cmd0 = [''sbatch'', ens @ ''.slurm''];
             sbmttr_cmd = (if wait then [''sbatch'', ''--wait'', ens @ ''.slurm''] else sbmttr_cmd0)
         in case run h sbmttr_cmd (Some pth) None False of
              Inl e \<Rightarrow> (Inl e, [Created fname, Wrote fname body])
            | Inr p \<Rightarrow>
                (Inr (), [Created fname, Wrote fname body, Ran sbmttr_cmd (Some pth) None])))))))))"

section \<open>Plotting: values, host and effects\<close>

text \<open>
  The plotting functions read \<open>.xvg\<close> tables with numpy and draw with matplotlib. The
  numeric table (type \<open>'d\<close>) and the entries of \<open>values\<close> (type \<open>'v\<close>) are left
  abstract; the host says how each library call answers:
  \<^item> \<open>loadtxt file\<close> is \<open>np.loadtxt(file, comments=['@', '#'])\<close>;
  \<^item> \<open>draw_line\<close> is the matplotlib part of \<open>xvg_line\<close> (lines 133--159), ending with
    \<open>plt.savefig\<close>;
  \<^item> \<open>new_figure\<close> is \<open>plt.subplots\<close> / \<open>plt.figure\<close> with the colour table of the
    replicas, \<open>draw_replica\<close> the \<open>ax.plot\<close> of one replica's values (line 189) and
    \<open>draw_replica_ma\<close> the moving average of one replica and its \<open>ax.plot\<close> (lines
    192--194) in \<open>xvg_multi_line\<close>, \<open>kdeplot\<close> the kernel-density call, \<open>savefig\<close> the
    titles, legend and \<open>plt.savefig\<close> that close a multi-replica figure;
  \<^item> \<open>clock k\<close> is the text of the \<open>k\<close>-th \<open>time.time()\<close> of a call, \<open>fmt_0_2f\<close> is
    \<open>'%0.2f' % v\<close>, and \<open>display\<close> is \<open>display(HTML(html))\<close>.
\<close>

record ('d, 'v) plot_host =
  loadtxt :: "string \<Rightarrow> exn + 'd"
  draw_line :: "'d \<Rightarrow> string \<Rightarrow> string \<Rightarrow> string \<Rightarrow> string \<Rightarrow> string \<Rightarrow> int \<Rightarrow> string \<Rightarrow> exn option"
  new_figure :: "int \<Rightarrow> exn option"
  draw_replica :: "'d \<Rightarrow> nat \<Rightarrow> string \<Rightarrow> exn option"
  draw_replica_ma :: "'d \<Rightarrow> nat \<Rightarrow> int \<Rightarrow> string \<Rightarrow> exn option"
  kdeplot :: "'d \<Rightarrow> nat \<Rightarrow> 'v option \<Rightarrow> string \<Rightarrow> exn option"
  savefig :: "string \<Rightarrow> exn option"
  clock :: "nat \<Rightarrow> string"
  fmt_0_2f :: "'v \<Rightarrow> string"
  display :: "string \<Rightarrow> exn option"

datatype plot_effect =
    Loaded string
  | Drawn string
  | KdeDrawn string
  | Saved string
  | Displayed string

text \<open>
  The names bound in the module's global namespace: the imports of lines 1--6 and the
  five functions the module defines. A global name outside this list (and outside the
  builtins) raises \<open>NameError\<close> when it is evaluated.
\<close>

definition module_globals :: "string list" where
  "module_globals =
     [''time'', ''subprocess'', ''np'', ''plt'', ''FuncFormatter'', ''display'', ''HTML'',
      ''gmx'', ''xvg_line'', ''xvg_multi_line'', ''xvg_multi_density'', ''xvg'']"

definition resolve :: "string \<Rightarrow> exn option" where
  "resolve name =
     (if name \<in> set module_globals then None
      else Some (NameError (''name '' @ [CHR 0x27] @ name @ [CHR 0x27] @ '' is not defined'')))"

text \<open>Decimal digits of a natural number, and \<open>'%02d' % n\<close> for \<open>n \<ge> 0\<close>.\<close>

fun dec :: "nat \<Rightarrow> string" where
  "dec n = (if n < 10 then [''0123456789'' ! n] else dec (n div 10) @ [''0123456789'' ! (n mod 10)])"

definition pct_02d :: "nat \<Rightarrow> string" where
  "pct_02d n = (if n < 10 then ''0'' @ dec n else dec n)"

text \<open>\<open>"%s" % x\<close> for a parameter that is a \<open>str\<close> or \<open>None\<close>.\<close>

definition pct_s_opt :: "string option \<Rightarrow> string" where
  "pct_s_opt x = (case x of None \<Rightarrow> ''None'' | Some s \<Rightarrow> s)"

section \<open>\<open>xvg_line\<close> (lines 102--159)\<close>

text \<open>
  Reads \<open>path/ensemble+sufix.xvg\<close>, draws, saves \<open>path/ensemble+sufix.png\<close>.
\<close>

definition xvg_line ::
  "('d, 'v) plot_host \<Rightarrow> string \<Rightarrow> string \<Rightarrow> string \<Rightarrow> string \<Rightarrow> string \<Rightarrow> string \<Rightarrow> string \<Rightarrow>
   string \<Rightarrow> int \<Rightarrow> (exn + unit) \<times> plot_effect list" where
  "xvg_line ph title subtitle path ensemble xlabel ylabel label sufix movavg =
     (let src = path @ ''/'' @ ensemble @ sufix @ ''.xvg'';
          png = path @ ''/'' @ ensemble @ sufix @ ''.png''
      in case loadtxt ph src of
           Inl e \<Rightarrow> (Inl e, [])
         | Inr data \<Rightarrow>
             (case draw_line ph data title subtitle xlabel ylabel label movavg png of
                Some e \<Rightarrow> (Inl e, [Loaded src])
              | None \<Rightarrow> (Inr (), [Loaded src, Saved png])))"

section \<open>\<open>xvg_multi_line\<close> (lines 161--205)\<close>

text \<open>
  The loop \<open>for i in range(replicas)\<close>, over the indices still to visit. The values are
  drawn when \<open>plot_type\<close> is \<open>both\<close> or \<open>values\<close>, the moving average (label
  \<open>'%s MA' % label\<close>) when \<open>movavg != 0\<close> and \<open>plot_type\<close> is \<open>both\<close> or
  \<open>moving_average\<close>.
\<close>

fun multi_line_loop ::
  "('d, 'v) plot_host \<Rightarrow> string \<Rightarrow> string \<Rightarrow> string \<Rightarrow> int \<Rightarrow> string \<Rightarrow> nat list \<Rightarrow>
   plot_effect list \<Rightarrow> (exn + unit) \<times> plot_effect list" where
  "multi_line_loop ph path sufix label_prefix movavg plot_type [] eff = (Inr (), eff)"
| "multi_line_loop ph path sufix label_prefix movavg plot_type (i # is) eff =
     (let data_path = path @ ''/replica'' @ pct_02d (i + 1) @ sufix @ ''.xvg'';
          label = label_prefix @ '' '' @ dec (i + 1)
      in case loadtxt ph data_path of
           Inl e \<Rightarrow> (Inl e, eff)
         | Inr data \<Rightarrow>
             (let eff1 = eff @ [Loaded data_path];
                  (r2, eff2) =
                    (if plot_type \<in> set [''both'', ''values''] then
                       (case draw_replica ph data i label of
                          Some e \<Rightarrow> (Some e, eff1)
                        | None \<Rightarrow> (None, eff1 @ [Drawn label]))
                     else (None, eff1))
              in case r2 of
                   Some e \<Rightarrow> (Inl e, eff2)
                 | None \<Rightarrow>
                     (let (r3, eff3) =
                            (if movavg \<noteq> 0 \<and> plot_type \<in> set [''both'', ''moving_average''] then
                               (case draw_replica_ma ph data i movavg (label @ '' MA'') of
                                  Some e \<Rightarrow> (Some e, eff2)
                                | None \<Rightarrow> (None, eff2 @ [Drawn (label @ '' MA'')]))
                             else (None, eff2))
                      in case r3 of
                           Some e \<Rightarrow> (Inl e, eff3)
                         | None \<Rightarrow>
                             multi_line_loop ph path sufix label_prefix movavg plot_type is eff3)))"

definition xvg_multi_line ::
  "('d, 'v) plot_host \<Rightarrow> string \<Rightarrow> string \<Rightarrow> string \<Rightarrow> string \<Rightarrow> string \<Rightarrow> string \<Rightarrow> int \<Rightarrow>
   string \<Rightarrow> int \<Rightarrow> string \<Rightarrow> (exn + unit) \<times> plot_effect list" where
  "xvg_multi_line ph title path ensemble xlabel ylabel label_prefix replicas sufix movavg plot_type =
     (case new_figure ph replicas of
        Some e \<Rightarrow> (Inl e, [])
      | None \<Rightarrow>
          (case multi_line_loop ph path sufix label_prefix movavg plot_type [0..<nat replicas] [] of
             (Inl e, eff) \<Rightarrow> (Inl e, eff)
           | (Inr u, eff) \<Rightarrow>
               (let png = path @ ''/'' @ ensemble @ sufix @ ''.png''
                in case savefig ph png of
                     Some e \<Rightarrow> (Inl e, eff)
                   | None \<Rightarrow> (Inr (), eff @ [Saved png]))))"

section \<open>\<open>xvg_multi_density\<close> (lines 207--239)\<close>

text \<open>
  The loop \<open>for i in range(replicas)\<close>. In \<open>sns.kdeplot(data[:, 1], ...)\<close> the callee
  \<open>sns.kdeplot\<close> is evaluated first, so the global name \<open>sns\<close> is looked up before
  anything is drawn.
\<close>

fun density_loop ::
  "('d, 'v) plot_host \<Rightarrow> string \<Rightarrow> string \<Rightarrow> string \<Rightarrow> 'v option \<Rightarrow> nat list \<Rightarrow>
   plot_effect list \<Rightarrow> (exn + unit) \<times> plot_effect list" where
  "density_loop ph path sufix label_prefix bandwidth [] eff = (Inr (), eff)"
| "density_loop ph path sufix label_prefix bandwidth (i # is) eff =
     (let data_path = path @ ''/replica'' @ pct_02d (i + 1) @ sufix @ ''.xvg''
      in case loadtxt ph data_path of
           Inl e \<Rightarrow> (Inl e, eff)
         | Inr data \<Rightarrow>
             (case resolve ''sns'' of
                Some e \<Rightarrow> (Inl e, eff @ [Loaded data_path])
              | None \<Rightarrow>
                  (let label = label_prefix @ '' '' @ dec (i + 1)
                   in case kdeplot ph data i bandwidth label of
                        Some e \<Rightarrow> (Inl e, eff @ [Loaded data_path])
                      | None \<Rightarrow>
                          density_loop ph path sufix label_prefix bandwidth is
                            (eff @ [Loaded data_path, KdeDrawn label]))))"

definition xvg_multi_density ::
  "('d, 'v) plot_host \<Rightarrow> string \<Rightarrow> string \<Rightarrow> string \<Rightarrow> string \<Rightarrow> string \<Rightarrow> string \<Rightarrow> int \<Rightarrow>
   string \<Rightarrow> 'v option \<Rightarrow> (exn + unit) \<times> plot_effect list" where
  "xvg_multi_density ph title path ensemble xlabel ylabel label_prefix replicas sufix bandwidth =
     (case new_figure ph replicas of
        Some e \<Rightarrow> (Inl e, [])
      | None \<Rightarrow>
          (case density_loop ph path sufix label_prefix bandwidth [0..<nat replicas] [] of
             (Inl e, eff) \<Rightarrow> (Inl e, eff)
           | (Inr u, eff) \<Rightarrow>
               (let png = path @ ''/'' @ ensemble @ sufix @ ''_density.png''
                in case savefig ph png of
                     Some e \<Rightarrow> (Inl e, eff)
                   | None \<Rightarrow> (Inr (), eff @ [Saved png]))))"

section \<open>\<open>xvg\<close> (lines 241--299)\<close>

text \<open>One gallery cell: \<open>'<td><img src="{}?{}" style="width:100%"></td>'.format(src, t)\<close>.\<close>

definition img_cell :: "string \<Rightarrow> string \<Rightarrow> string" where
  "img_cell src t = ''<td><img src=\"'' @ src @ ''?'' @ t @ ''\" style=\"width:100%\"></td>''"

text \<open>
  The subtitle of replica \<open>i\<close> (lines 287--290). \<open>values[i - 1]\<close> raises when \<open>values\<close>
  is \<open>None\<close> or too short; \<open>i \<ge> 1\<close> in the loop, so the index is never negative.
\<close>

definition replica_subtitle ::
  "('d, 'v) plot_host \<Rightarrow> string \<Rightarrow> string option \<Rightarrow> string option \<Rightarrow> 'v list option \<Rightarrow> nat \<Rightarrow>
   exn + string" where
  "replica_subtitle ph ensemble measure' units values i =
     (if ensemble = ''min'' then Inr (''Replica #'' @ pct_02d (i - 1))
      else
        (case values of
           None \<Rightarrow> Inl (TypeError ([CHR 0x27] @ ''NoneType'' @ [CHR 0x27] @ '' object is not subscriptable''))
         | Some vs \<Rightarrow>
             if i - 1 < length vs then
               Inr (''Replica #'' @ pct_02d (i - 1) @ '' ('' @ pct_s_opt measure' @ '' = ''
                    @ fmt_0_2f ph (vs ! (i - 1)) @ pct_s_opt units @ '')'')
             else Inl (IndexError ''list index out of range'')))"

text \<open>
  The loop \<open>for i in range(1, replicas)\<close> of lines 284--295, over the indices still to
  visit; the state is the HTML text, the number of \<open>time.time()\<close> calls so far and the
  effects so far.
\<close>

fun xvg_loop ::
  "('d, 'v) plot_host \<Rightarrow> string \<Rightarrow> string \<Rightarrow> string \<Rightarrow> string \<Rightarrow> string \<Rightarrow> string \<Rightarrow>
   string option \<Rightarrow> string option \<Rightarrow> 'v list option \<Rightarrow> string \<Rightarrow> int \<Rightarrow> nat list \<Rightarrow>
   string \<Rightarrow> nat \<Rightarrow> plot_effect list \<Rightarrow> (exn + string) \<times> plot_effect list" where
  "xvg_loop ph title path ensemble xlabel ylabel label measure' units values sufix movavg
     [] html k eff = (Inr html, eff)"
| "xvg_loop ph title path ensemble xlabel ylabel label measure' units values sufix movavg
     (i # is) html k eff =
     (let npath = path @ ''/replica'' @ pct_02d i
      in case replica_subtitle ph ensemble measure' units values i of
           Inl e \<Rightarrow> (Inl e, eff)
         | Inr subtitle \<Rightarrow>
             (case xvg_line ph title subtitle npath ensemble xlabel ylabel label sufix movavg of
                (Inl e, eff1) \<Rightarrow> (Inl e, eff @ eff1)
              | (Inr u, eff1) \<Rightarrow>
                  (let html1 = html @ img_cell (npath @ ''/'' @ ensemble @ sufix @ ''.png'') (clock ph k);
                       html2 = (if i mod 3 = 0 then html1 @ ''</tr>'' else html1)
                   in xvg_loop ph title path ensemble xlabel ylabel label measure' units values
                        sufix movavg is html2 (k + 1) (eff @ eff1))))"

text \<open>Lines 297--299: close the table and display it.\<close>

definition xvg_finish ::
  "('d, 'v) plot_host \<Rightarrow> string \<Rightarrow> plot_effect list \<Rightarrow> (exn + unit) \<times> plot_effect list" where
  "xvg_finish ph html eff =
     (let html1 = html @ ''</table>''
      in case display ph html1 of
           Some e \<Rightarrow> (Inl e, eff)
         | None \<Rightarrow> (Inr (), eff @ [Displayed html1]))"

definition xvg ::
  "('d, 'v) plot_host \<Rightarrow> string \<Rightarrow> string \<Rightarrow> string \<Rightarrow> string \<Rightarrow> string \<Rightarrow> string \<Rightarrow>
   string option \<Rightarrow> string option \<Rightarrow> 'v list option \<Rightarrow> int option \<Rightarrow> string \<Rightarrow> int \<Rightarrow> bool \<Rightarrow>
   string \<Rightarrow> (exn + unit) \<times> plot_effect list" where
  "xvg ph title path ensemble xlabel ylabel label measure' units values replicas sufix movavg
     multi_lines plot_type =
     (let html = ''<table>''
      in case replicas of
           None \<Rightarrow>
             (case xvg_line ph title [] path ensemble xlabel ylabel label sufix movavg of
                (Inl e, eff) \<Rightarrow> (Inl e, eff)
              | (Inr u, eff) \<Rightarrow>
                  xvg_finish ph
                    (html @ img_cell (path @ ''/'' @ ensemble @ sufix @ ''.png'') (clock ph 0)) eff)
         | Some r \<Rightarrow>
             if multi_lines then
               (case xvg_multi_line ph title path ensemble xlabel ylabel label r sufix movavg
                       plot_type of
                  (Inl e, eff) \<Rightarrow> (Inl e, eff)
                | (Inr u, eff) \<Rightarrow>
                    xvg_finish ph
                      (html @ img_cell (path @ ''/'' @ ensemble @ sufix @ ''.png'') (clock ph 0)) eff)
             else
               (case xvg_loop ph title path ensemble xlabel ylabel label measure' units values
                       sufix movavg [1..<nat r] html 0 [] of
                  (Inl e, eff) \<Rightarrow> (Inl e, eff)
                | (Inr html1, eff) \<Rightarrow> xvg_finish ph html1 eff))"

section \<open>The moving average (lines 136--141 and 191--194)\<close>

text \<open>
  \<open>window = np.ones(w) / w\<close> and \<open>moving_avg = np.convolve(data[:, 1], window, 'valid')\<close>.
  The column \<open>data[:, 1]\<close> is a list of finite float64 values, each a rational number.
  Every arithmetic operation of numpy on float64 is the exact operation followed by a
  rounding; the rounding \<open>rnd\<close> is a parameter of the model, so that the same definitions
  read as float64 arithmetic (\<open>rnd = fl64\<close> below) and as exact arithmetic
  (\<open>rnd = (\<lambda>x. x)\<close>).
\<close>

text \<open>
  The inner product numpy's \<open>correlate\<close> takes at each position: products accumulated
  from the left, starting from \<open>0.0\<close>.
\<close>

definition dot :: "(rat \<Rightarrow> rat) \<Rightarrow> rat list \<Rightarrow> rat list \<Rightarrow> rat" where
  "dot rnd xs ys = fold (\<lambda>(x, y) acc. rnd (acc + rnd (x * y))) (zip xs ys) 0"

text \<open>
  \<open>np.convolve(a, v, 'valid')\<close>: an empty argument raises \<open>ValueError\<close>; the longer
  argument is taken as \<open>a\<close> (numpy swaps them when \<open>v\<close> is longer); the result has
  \<open>len(a) - len(v) + 1\<close> points, the \<open>k\<close>-th being the inner product of
  \<open>a[k : k + len(v)]\<close> with \<open>v\<close> reversed.
\<close>

definition np_convolve_valid :: "(rat \<Rightarrow> rat) \<Rightarrow> rat list \<Rightarrow> rat list \<Rightarrow> exn + rat list" where
  "np_convolve_valid rnd a v =
     (if a = [] then Inl (ValueError ''a cannot be empty'')
      else if v = [] then Inl (ValueError ''v cannot be empty'')
      else
        (let (a1, v1) = (if length a < length v then (v, a) else (a, v))
         in Inr (map (\<lambda>k. dot rnd (take (length v1) (drop k a1)) (rev v1))
                   [0..<length a1 - length v1 + 1])))"

text \<open>
  The overlay for the column \<open>ys\<close> and the window size \<open>movavg\<close> (the callers test
  \<open>movavg != 0\<close> first). \<open>np.ones\<close> of a negative size raises \<open>ValueError\<close>; each entry
  of the window is \<open>1.0 / float(w)\<close>.
\<close>

definition moving_average :: "(rat \<Rightarrow> rat) \<Rightarrow> rat list \<Rightarrow> int \<Rightarrow> exn + rat list" where
  "moving_average rnd ys movavg =
     (if movavg < 0 then Inl (ValueError ''negative dimensions are not allowed'')
      else
        (let w = nat movavg;
             window = replicate w (rnd (1 / rnd (of_nat w)))
         in np_convolve_valid rnd ys window))"

subsection \<open>Rounding to float64\<close>

text \<open>
  IEEE 754 binary64, round to nearest, ties to even: a non-zero \<open>x\<close> is rounded to the
  nearest multiple of \<open>2 ^ e\<close>, where \<open>e\<close> is the exponent of the last place of
  \<open>x\<close> (53 significant bits, and not below \<open>-1074\<close>, the last place of the subnormal
  numbers). Magnitudes from \<open>2 ^ 1024\<close> on, which float64 rounds to infinity, are outside
  the model.
\<close>

definition round_half_even :: "rat \<Rightarrow> int" where
  "round_half_even r =
     (let f = \<lfloor>r\<rfloor>; d = r - of_int f
      in if d < 1 / 2 then f else if 1 / 2 < d then f + 1 else if even f then f else f + 1)"

definition pow2 :: "int \<Rightarrow> rat" where
  "pow2 e = (if 0 \<le> e then 2 ^ nat e else 1 / 2 ^ nat (- e))"

text \<open>The binary exponent \<open>\<lfloor>log\<^sub>2 a\<rfloor>\<close> of a positive rational, from the bit lengths.\<close>

definition ilog2 :: "rat \<Rightarrow> int" where
  "ilog2 a =
     (let (p, q) = quotient_of a; d = bitlen p - bitlen q
      in if pow2 d \<le> a then d else d - 1)"

definition fl64 :: "rat \<Rightarrow> rat" where
  "fl64 x =
     (if x = 0 then 0
      else (let a = \<bar>x\<bar>;
                e = max (- 1074) (ilog2 a - 52);
                m = round_half_even (a / pow2 e)
            in sgn x * of_int m * pow2 e))"

section \<open>The lines of a text\<close>

text \<open>
  \<open>text.split('\n')\<close>: the lines of a text, the last one being what follows the last
  newline character.
\<close>

fun split_lines :: "string \<Rightarrow> string list" where
  "split_lines [] = [[]]"
| "split_lines (c # cs) =
     (if c = CHR 0x0A then [] # split_lines cs
      else (case split_lines cs of
              [] \<Rightarrow> [[c]]
            | l # ls \<Rightarrow> (c # l) # ls))"

section \<open>What one replica of the separate-plot mode reads and produces\<close>

text \<open>
  The data file read and the image saved for replica \<open>i\<close> (\<open>xvg_line\<close> called with
  \<open>npath = path/replica%02d\<close>), and the text appended to the gallery for it (lines
  293--295) when \<open>time.time()\<close> prints as \<open>t\<close>.
\<close>

definition replica_xvg :: "string \<Rightarrow> string \<Rightarrow> string \<Rightarrow> nat \<Rightarrow> string" where
  "replica_xvg path ensemble sufix i =
     path @ ''/replica'' @ pct_02d i @ ''/'' @ ensemble @ sufix @ ''.xvg''"

definition replica_png :: "string \<Rightarrow> string \<Rightarrow> string \<Rightarrow> nat \<Rightarrow> string" where
  "replica_png path ensemble sufix i =
     path @ ''/replica'' @ pct_02d i @ ''/'' @ ensemble @ sufix @ ''.png''"

definition gallery_cell :: "string \<Rightarrow> string \<Rightarrow> string \<Rightarrow> nat \<Rightarrow> string \<Rightarrow> string" where
  "gallery_cell path ensemble sufix i t =
     img_cell (replica_png path ensemble sufix i) t @ (if i mod 3 = 0 then ''</tr>'' else [])"

text \<open>The images saved among the effects of a call.\<close>

fun saved_images :: "plot_effect list \<Rightarrow> string list" where
  "saved_images [] = []"
| "saved_images (Saved png # es) = png # saved_images es"
| "saved_images (e # es) = saved_images es"

section \<open>Concrete hosts\<close>

text \<open>
  A host on which every call succeeds and the tool exits with status 0. Its \<open>list_repr\<close>
  is Python's for strings that need no escape: \<open>['a', 'b']\<close>.
\<close>

definition ok_host :: host where
  "ok_host =
     \<lparr>run = (\<lambda>cmd cwd inp capture. Inr \<lparr>returncode = 0, stdout = ''done'', stderr = []\<rparr>),
      open_w = (\<lambda>file. None),
      file_write = (\<lambda>file body. None),
      list_repr = (\<lambda>xs. ''['' @ str_join '', '' (map (\<lambda>x. [CHR 0x27] @ x @ [CHR 0x27]) xs) @ '']'')\<rparr>"

text \<open>A host on which the external tool starts, fails and exits with status 1.\<close>

definition exit1_host :: host where
  "exit1_host =
     ok_host\<lparr>run := (\<lambda>cmd cwd inp capture.
        Inr \<lparr>returncode = 1, stdout = [], stderr = ''Fatal error''\<rparr>)\<rparr>"

text \<open>Hosts on which one library call raises: the launch, the open, the write.\<close>

definition no_tool_host :: host where
  "no_tool_host = ok_host\<lparr>run := (\<lambda>cmd cwd inp capture. Inl (LibError ''FileNotFoundError''))\<rparr>"

definition readonly_host :: host where
  "readonly_host = ok_host\<lparr>open_w := (\<lambda>file. Some (LibError ''PermissionError''))\<rparr>"

definition full_disk_host :: host where
  "full_disk_host = ok_host\<lparr>file_write := (\<lambda>file body. Some (LibError ''OSError 28''))\<rparr>"

text \<open>
  A plotting host on which every library call succeeds; the \<open>k\<close>-th \<open>time.time()\<close>
  prints as \<open>1700000000 + k\<close> seconds and a quarter.
\<close>

definition ok_plot_host :: "(unit, unit) plot_host" where
  "ok_plot_host =
     \<lparr>loadtxt = (\<lambda>file. Inr ()),
      draw_line = (\<lambda>data title subtitle xlabel ylabel label movavg png. None),
      new_figure = (\<lambda>replicas. None),
      draw_replica = (\<lambda>data i label. None),
      draw_replica_ma = (\<lambda>data i movavg label. None),
      kdeplot = (\<lambda>data i bandwidth label. None),
      savefig = (\<lambda>png. None),
      clock = (\<lambda>k. dec (1700000000 + k) @ ''.25''),
      fmt_0_2f = (\<lambda>v. ''0.00''),
      display = (\<lambda>html. None)\<rparr>"

section \<open>The batch script as the specification words it\<close>

text \<open>
  The specification's wording of the template: a resource directive is left out of the
  script when its value is null, and is present with its value otherwise.
\<close>

definition directive_if_set :: "host \<Rightarrow> string \<Rightarrow> pyval \<Rightarrow> string list" where
  "directive_if_set h opt v = (if v = PNone then [] else [directive h opt v])"

definition batch_script_spec :: "host \<Rightarrow> (string \<times> pyval) list \<Rightarrow> string list \<Rightarrow> exn + string list" where
  "batch_script_spec h schdlr cmd =
     bind_exn (getitem schdlr ''job_name'') (\<lambda>job_name.
     bind_exn (getitem schdlr ''output'') (\<lambda>output.
     bind_exn (getitem schdlr ''partition'') (\<lambda>partition.
     bind_exn (getitem schdlr ''nodes'') (\<lambda>nodes.
     bind_exn (getitem schdlr ''ntasks'') (\<lambda>ntasks.
     bind_exn (getitem schdlr ''ntasks_per_node'') (\<lambda>ntasks_per_node.
     bind_exn (getitem schdlr ''modules'') (\<lambda>modules.
     bind_exn (as_list modules) (\<lambda>mods.
       Inr ([''#!/bin/bash'', []]
            @ directive_if_set h ''job-name'' job_name
            @ directive_if_set h ''output'' output
            @ directive_if_set h ''partition'' partition
            @ directive_if_set h ''nodes'' nodes
            @ directive_if_set h ''ntasks'' ntasks
            @ directive_if_set h ''ntasks-per-node'' ntasks_per_node
            @ [[], ''# Required modules''] @ mods
            @ [[], ''# Run the molecular dynamics simulation'', str_join '' '' cmd])))))))))"

section \<open>The command line\<close>

lemma fold_extend_pairs:
  "fold (\<lambda>(flag, file) cmd. cmd @ [flag, file]) xs acc
     = acc @ concat (map (\<lambda>(flag, file). [flag, file]) xs)"
  by (induction xs arbitrary: acc) (auto split: prod.splits)

text \<open>
  C1. For every executable name, list of free arguments and input and output flag-to-path
  mappings, the command line is the tool invocation \<open>gmx\<close> (the launcher prefix
  \<open>mpirun gmx_mpi\<close> for \<open>mdrun\<close>), the executable name, all free arguments in order, each
  input flag immediately followed by its path in iteration order, then each output flag
  immediately followed by its path in iteration order.
\<close>

theorem build_cmd_layout:
  "build_cmd executable arguments inputs outputs
     = (if executable = ''mdrun'' then [''mpirun'', ''gmx_mpi''] else [''gmx''])
       @ [executable] @ arguments
       @ concat (map (\<lambda>(flag, file). [flag, file]) inputs)
       @ concat (map (\<lambda>(flag, file). [flag, file]) outputs)"
  by (simp add: build_cmd_def fold_extend_pairs)

text \<open>
  C6. The constructed command starts with the parallel-launcher prefix
  \<open>mpirun gmx_mpi\<close> if and only if the executable name is \<open>mdrun\<close>; for every other
  executable it starts with the plain tool invocation \<open>gmx\<close>.
\<close>

theorem build_cmd_prefix:
  "(take 2 (build_cmd executable arguments inputs outputs) = [''mpirun'', ''gmx_mpi''])
      = (executable = ''mdrun'')
   \<and> (take 1 (build_cmd executable arguments inputs outputs) = [''gmx''])
      = (executable \<noteq> ''mdrun'')"
  by (simp add: build_cmd_def fold_extend_pairs)

section \<open>Parameter validation in scheduled mode\<close>

text \<open>
  C2. Every call of \<open>gmx\<close> with the executable \<open>mdrun\<close> in which \<open>name\<close>, \<open>ensemble\<close>
  or \<open>path\<close> is \<open>None\<close> raises \<open>ValueError\<close>, and it does so with no effect at all:
  no file is opened or written and no process is started.
\<close>

theorem gmx_missing_parameter:
  assumes "executable = ''mdrun''"
    and "name = None \<or> ensemble = None \<or> path = None"
  shows "gmx h executable arguments inputs outputs name path ensemble scheduler wait stdin
           = (Inl (ValueError
                (if ensemble = None then ''ensemble must be provided.''
                 else if name = None then ''name must be provided.''
                 else ''path must be provided.'')), [])"
  using assms by (auto simp: gmx_def split: option.splits)

theorem gmx_missing_parameter_witness:
  "gmx ok_host ''mdrun'' [''-v''] [(''-s'', ''nvt.tpr'')] [(''-o'', ''nvt.trr'')]
       None (Some ''/work'') (Some ''nvt'') None False None
     = (Inl (ValueError ''name must be provided.''), [])"
  using gmx_missing_parameter [of "''mdrun''" None "Some ''nvt''" "Some ''/work''" ok_host
      "[''-v'']" "[(''-s'', ''nvt.tpr'')]" "[(''-o'', ''nvt.trr'')]" None False None]
  by simp

section \<open>Merging the scheduler override\<close>

lemma map_of_fold_update:
  "map_of (fold (\<lambda>(key, v) s. AList.update key v s) ov d) = map_of d ++ map_of (rev ov)"
  by (induction ov arbitrary: d)
     (auto simp: update_conv' map_add_def fun_eq_iff split: option.splits)

lemma map_of_rev_distinct:
  "distinct (map fst ov) \<Longrightarrow> map_of (rev ov) = map_of ov"
  by (rule map_of_inject_set[THEN iffD2]) (simp_all add: rev_map[symmetric])

text \<open>
  C5. For every override mapping (a dictionary: its keys are distinct), the merged
  configuration has, at every key, the override's value when the override has the key and
  the default's entry otherwise.
\<close>

theorem merge_schdlr_override:
  assumes "distinct (map fst ov)"
  shows "map_of (merge_schdlr (default_schdlr name ensemble) (Some ov)) key
           = (case map_of ov key of
                Some v \<Rightarrow> Some v
              | None \<Rightarrow> map_of (default_schdlr name ensemble) key)"
  using assms
  by (simp add: merge_schdlr_def map_of_fold_update map_of_rev_distinct map_add_def
           split: option.splits)

theorem merge_schdlr_override_witness:
  "map_of (merge_schdlr (default_schdlr ''md'' ''nvt'')
             (Some [(''partition'', PStr ''gpu''), (''ntasks'', PNone), (''account'', PStr ''lab'')]))
          ''partition'' = Some (PStr ''gpu'')
   \<and> map_of (merge_schdlr (default_schdlr ''md'' ''nvt'')
             (Some [(''partition'', PStr ''gpu''), (''ntasks'', PNone), (''account'', PStr ''lab'')]))
          ''nodes'' = Some (PStr ''1-12'')"
  using merge_schdlr_override [of "[(''partition'', PStr ''gpu''), (''ntasks'', PNone), (''account'', PStr ''lab'')]"
          "''md''" "''nvt''" "''partition''"]
        merge_schdlr_override [of "[(''partition'', PStr ''gpu''), (''ntasks'', PNone), (''account'', PStr ''lab'')]"
          "''md''" "''nvt''" "''nodes''"]
  by (simp add: default_schdlr_def)

section \<open>The resource directives of the batch script\<close>

lemma batch_script_eval:
  assumes "map_of schdlr ''job_name'' = Some job_name"
    and "map_of schdlr ''output'' = Some output"
    and "map_of schdlr ''partition'' = Some partition'"
    and "map_of schdlr ''nodes'' = Some nodes"
    and "map_of schdlr ''ntasks'' = Some ntasks"
    and "map_of schdlr ''ntasks_per_node'' = Some ntasks_per_node"
    and "map_of schdlr ''modules'' = Some (PList mods)"
  shows "batch_script h schdlr cmd =
       Inr ([''#!/bin/bash'',
             [],
             directive h ''job-name'' job_name,
             directive h ''output'' output,
             directive_or_empty h ''partition'' partition',
             directive_or_empty h ''nodes'' nodes,
             directive h ''ntasks'' ntasks,
             directive_or_empty h ''ntasks-per-node'' ntasks_per_node,
             [],
             ''# Required modules''] @ mods @
            [[],
             ''# Run the molecular dynamics simulation'',
             str_join '' '' cmd])"
  using assms by (simp add: batch_script_def getitem_def bind_exn_def)

text \<open>
  C3, as the code has it. In a scheduler configuration that has the seven keys and a list
  of modules, the script has the same number of lines whatever is null. For
  \<open>partition\<close>, \<open>nodes\<close> and \<open>ntasks_per_node\<close> a null value leaves an empty line at the
  directive's place (lines 4, 5 and 7, counted from 0) and a non-null value puts the
  directive with that value there. The \<open>job-name\<close>, \<open>output\<close> and \<open>ntasks\<close> directives
  (lines 2, 3 and 6) carry their value when it is non-null.
\<close>

theorem batch_script_directive_lines:
  assumes "map_of schdlr ''job_name'' = Some job_name"
    and "map_of schdlr ''output'' = Some output"
    and "map_of schdlr ''partition'' = Some partition'"
    and "map_of schdlr ''nodes'' = Some nodes"
    and "map_of schdlr ''ntasks'' = Some ntasks"
    and "map_of schdlr ''ntasks_per_node'' = Some ntasks_per_node"
    and "map_of schdlr ''modules'' = Some (PList mods)"
  shows "\<exists>script. batch_script h schdlr cmd = Inr script
     \<and> length script = 13 + length mods
     \<and> script ! 4 = (if partition' = PNone then [] else ''#SBATCH --partition='' @ pct_s h partition')
     \<and> script ! 5 = (if nodes = PNone then [] else ''#SBATCH --nodes='' @ pct_s h nodes)
     \<and> script ! 7 = (if ntasks_per_node = PNone then []
                      else ''#SBATCH --ntasks-per-node='' @ pct_s h ntasks_per_node)
     \<and> (job_name \<noteq> PNone \<longrightarrow> script ! 2 = ''#SBATCH --job-name='' @ pct_s h job_name)
     \<and> (output \<noteq> PNone \<longrightarrow> script ! 3 = ''#SBATCH --output='' @ pct_s h output)
     \<and> (ntasks \<noteq> PNone \<longrightarrow> script ! 6 = ''#SBATCH --ntasks='' @ pct_s h ntasks)"
  unfolding batch_script_eval [OF assms]
  by (simp add: directive_def directive_or_empty_def)

theorem batch_script_directive_lines_witness:
  "\<exists>script. batch_script ok_host
       [(''job_name'', PStr ''mdnvt''), (''output'', PStr ''nvt.slurm.log''),
        (''partition'', PNone), (''nodes'', PStr ''1-12''), (''ntasks_per_node'', PStr ''1''),
        (''ntasks'', PStr ''10''), (''modules'', PList [''module load gromacs''])]
       [''mpirun'', ''gmx_mpi'', ''mdrun''] = Inr script
     \<and> length script = 14
     \<and> script ! 4 = []
     \<and> script ! 5 = ''#SBATCH --nodes=1-12''
     \<and> script ! 7 = ''#SBATCH --ntasks-per-node=1''
     \<and> script ! 2 = ''#SBATCH --job-name=mdnvt''
     \<and> script ! 3 = ''#SBATCH --output=nvt.slurm.log''
     \<and> script ! 6 = ''#SBATCH --ntasks=10''"
  using batch_script_directive_lines [of
       "[(''job_name'', PStr ''mdnvt''), (''output'', PStr ''nvt.slurm.log''),
        (''partition'', PNone), (''nodes'', PStr ''1-12''), (''ntasks_per_node'', PStr ''1''),
        (''ntasks'', PStr ''10''), (''modules'', PList [''module load gromacs''])]"
       "PStr ''mdnvt''" "PStr ''nvt.slurm.log''" PNone "PStr ''1-12''" "PStr ''10''" "PStr ''1''"
       "[''module load gromacs'']" ok_host "[''mpirun'', ''gmx_mpi'', ''mdrun'']"]
  by simp

text \<open>
  C3, as the specification states it, fails: with the override \<open>{"partition": None}\<close> the
  script keeps an empty line where the partition directive would be, while the
  specification's template leaves the line out.
\<close>

theorem batch_script_null_partition_counterexample:
  "batch_script ok_host
       (merge_schdlr (default_schdlr ''md'' ''nvt'') (Some [(''partition'', PNone)]))
       [''mpirun'', ''gmx_mpi'', ''mdrun'', ''-v'']
     = Inr [''#!/bin/bash'',
            [],
            ''#SBATCH --job-name=mdnvt'',
            ''#SBATCH --output=nvt.slurm.log'',
            [],
            ''#SBATCH --nodes=1-12'',
            ''#SBATCH --ntasks=10'',
            ''#SBATCH --ntasks-per-node=1'',
            [],
            ''# Required modules'',
            ''module load mpi/mpich-x86_64'',
            ''module load gromacs/2023.5-plumed'',
            [],
            ''# Run the molecular dynamics simulation'',
            ''mpirun gmx_mpi mdrun -v'']
   \<and> batch_script ok_host
       (merge_schdlr (default_schdlr ''md'' ''nvt'') (Some [(''partition'', PNone)]))
       [''mpirun'', ''gmx_mpi'', ''mdrun'', ''-v'']
     \<noteq> batch_script_spec ok_host
       (merge_schdlr (default_schdlr ''md'' ''nvt'') (Some [(''partition'', PNone)]))
       [''mpirun'', ''gmx_mpi'', ''mdrun'', ''-v'']"
  by (simp add: batch_script_def batch_script_spec_def merge_schdlr_def default_schdlr_def
        getitem_def bind_exn_def directive_def directive_or_empty_def directive_if_set_def)

section \<open>The written script\<close>

lemma str_join_snoc:
  "xs \<noteq> [] \<Longrightarrow> str_join sep (xs @ [y]) = str_join sep xs @ sep @ y"
  by (induction sep xs rule: str_join.induct) auto

lemma merge_schdlr_lookup:
  "map_of (merge_schdlr d scheduler) k
     = (case scheduler of None \<Rightarrow> map_of d k | Some ov \<Rightarrow> (map_of d ++ map_of (rev ov)) k)"
  by (simp add: merge_schdlr_def map_of_fold_update split: option.splits)

lemma merge_schdlr_keeps_key:
  "map_of d k = Some v \<Longrightarrow> \<exists>v'. map_of (merge_schdlr d scheduler) k = Some v'"
  by (auto simp: merge_schdlr_lookup map_add_def split: option.splits)

lemma merge_schdlr_modules:
  assumes "map_of d ''modules'' = Some (PList ms)"
    and "\<forall>ov v. scheduler = Some ov \<longrightarrow> (''modules'', v) \<in> set ov \<longrightarrow> (\<exists>ms. v = PList ms)"
  shows "\<exists>ms'. map_of (merge_schdlr d scheduler) ''modules'' = Some (PList ms')"
proof (cases scheduler)
  case None
  with assms(1) show ?thesis by (simp add: merge_schdlr_lookup)
next
  case (Some ov)
  show ?thesis
  proof (cases "map_of (rev ov) ''modules''")
    case None
    with Some assms(1) show ?thesis by (simp add: merge_schdlr_lookup map_add_def)
  next
    case (Some v)
    then have "(''modules'', v) \<in> set ov" by (auto dest: map_of_SomeD)
    with assms(2) \<open>scheduler = Some ov\<close> obtain ms' where "v = PList ms'" by blast
    with Some \<open>scheduler = Some ov\<close> show ?thesis by (simp add: merge_schdlr_lookup map_add_def)
  qed
qed

lemma batch_script_merged:
  assumes "\<forall>ov v. scheduler = Some ov \<longrightarrow> (''modules'', v) \<in> set ov \<longrightarrow> (\<exists>ms. v = PList ms)"
  shows "\<exists>head. head \<noteq> [] \<and>
           batch_script h (merge_schdlr (default_schdlr nm ens) scheduler) cmd
             = Inr (head @ [str_join '' '' cmd])"
proof -
  let ?s = "merge_schdlr (default_schdlr nm ens) scheduler"
  obtain job_name where 1: "map_of ?s ''job_name'' = Some job_name"
    using merge_schdlr_keeps_key [of "default_schdlr nm ens" "''job_name''"]
    by (auto simp: default_schdlr_def)
  obtain outp where 2: "map_of ?s ''output'' = Some outp"
    using merge_schdlr_keeps_key [of "default_schdlr nm ens" "''output''"]
    by (auto simp: default_schdlr_def)
  obtain partition' where 3: "map_of ?s ''partition'' = Some partition'"
    using merge_schdlr_keeps_key [of "default_schdlr nm ens" "''partition''"]
    by (auto simp: default_schdlr_def)
  obtain nodes where 4: "map_of ?s ''nodes'' = Some nodes"
    using merge_schdlr_keeps_key [of "default_schdlr nm ens" "''nodes''"]
    by (auto simp: default_schdlr_def)
  obtain ntasks where 5: "map_of ?s ''ntasks'' = Some ntasks"
    using merge_schdlr_keeps_key [of "default_schdlr nm ens" "''ntasks''"]
    by (auto simp: default_schdlr_def)
  obtain ntasks_per_node where 6: "map_of ?s ''ntasks_per_node'' = Some ntasks_per_node"
    using merge_schdlr_keeps_key [of "default_schdlr nm ens" "''ntasks_per_node''"]
    by (auto simp: default_schdlr_def)
  obtain mods where 7: "map_of ?s ''modules'' = Some (PList mods)"
    using merge_schdlr_modules [OF _ assms, of "default_schdlr nm ens"]
    by (auto simp: default_schdlr_def)
  show ?thesis
    unfolding batch_script_eval [OF 1 2 3 4 5 6 7]
    by (rule exI [of _ "[''#!/bin/bash'', [], directive h ''job-name'' job_name,
             directive h ''output'' outp,
             directive_or_empty h ''partition'' partition',
             directive_or_empty h ''nodes'' nodes,
             directive h ''ntasks'' ntasks,
             directive_or_empty h ''ntasks-per-node'' ntasks_per_node,
             [],
             ''# Required modules''] @ mods @
            [[], ''# Run the molecular dynamics simulation'']"]) simp
qed

lemma split_lines_nonempty: "split_lines s \<noteq> []"
  by (induction s) (auto split: list.splits)

lemma split_lines_one:
  "CHR 0x0A \<notin> set t \<Longrightarrow> split_lines t = [t]"
  by (induction t) auto

lemma split_lines_two:
  "\<exists>l m ls. split_lines (s @ CHR 0x0A # t) = l # m # ls"
proof (induction s)
  case Nil
  obtain m ls where "split_lines t = m # ls"
    using split_lines_nonempty [of t] by (cases "split_lines t") auto
  then show ?case by simp
next
  case (Cons c s)
  then show ?case by (auto split: list.splits)
qed

lemma last_split_lines_append:
  "last (split_lines (s @ CHR 0x0A # t)) = last (split_lines t)"
proof (induction s)
  case Nil
  then show ?case by (simp add: split_lines_nonempty)
next
  case (Cons c s)
  obtain l m ls where "split_lines (s @ CHR 0x0A # t) = l # m # ls"
    using split_lines_two by blast
  with Cons show ?case by auto
qed

lemma str_join_avoids:
  "c \<notin> set sep \<Longrightarrow> \<forall>w \<in> set ws. c \<notin> set w \<Longrightarrow> c \<notin> set (str_join sep ws)"
  by (induction sep ws rule: str_join.induct) auto

text \<open>
  C7, as the code has it. In scheduled mode with \<open>name\<close>, \<open>ensemble\<close> and \<open>path\<close> given,
  any override whose \<open>modules\<close> entry (if it has one) is a list, and a file that can be
  opened and written, the first two effects of \<open>gmx\<close> are the creation of
  \<open>path/ensemble.slurm\<close> and the writing of a text to it that ends with a newline
  character followed by the command line joined with single spaces; when no word of the
  command line contains a newline character, the command line is the final line of that
  text.
\<close>

theorem gmx_script_final_line:
  assumes "executable = ''mdrun''" and "name = Some nm" and "ensemble = Some ens"
    and "path = Some pth"
    and "\<forall>ov v. scheduler = Some ov \<longrightarrow> (''modules'', v) \<in> set ov \<longrightarrow> (\<exists>ms. v = PList ms)"
    and "open_w h (pth @ ''/'' @ ens @ ''.slurm'') = None"
    and "\<forall>body. file_write h (pth @ ''/'' @ ens @ ''.slurm'') body = None"
  shows "\<exists>head. head \<noteq> [] \<and>
           batch_script h (merge_schdlr (default_schdlr nm ens) scheduler)
               (build_cmd executable arguments inputs outputs)
             = Inr (head @ [str_join '' '' (build_cmd executable arguments inputs outputs)]) \<and>
           take 2 (snd (gmx h executable arguments inputs outputs name path ensemble scheduler
                          wait stdin))
             = [Created (pth @ ''/'' @ ens @ ''.slurm''),
                Wrote (pth @ ''/'' @ ens @ ''.slurm'')
                  (str_join [CHR 0x0A] head @ [CHR 0x0A]
                     @ str_join '' '' (build_cmd executable arguments inputs outputs))] \<and>
           ((\<forall>w \<in> set (build_cmd executable arguments inputs outputs). CHR 0x0A \<notin> set w) \<longrightarrow>
              last (split_lines
                     (str_join [CHR 0x0A] head @ [CHR 0x0A]
                        @ str_join '' '' (build_cmd executable arguments inputs outputs)))
                = str_join '' '' (build_cmd executable arguments inputs outputs))"
proof -
  let ?cmd = "build_cmd executable arguments inputs outputs"
  obtain head where h: "head \<noteq> []"
    "batch_script h (merge_schdlr (default_schdlr nm ens) scheduler) ?cmd
       = Inr (head @ [str_join '' '' ?cmd])"
    using batch_script_merged [OF assms(5)] by blast
  have written: "take 2 (snd (gmx h executable arguments inputs outputs name path ensemble
                          scheduler wait stdin))
             = [Created (pth @ ''/'' @ ens @ ''.slurm''),
                Wrote (pth @ ''/'' @ ens @ ''.slurm'')
                  (str_join [CHR 0x0A] head @ [CHR 0x0A] @ str_join '' '' ?cmd)]"
    using assms(1-4,6,7) h
    by (simp add: gmx_def Let_def str_join_snoc newline_def split: sum.splits)
  have final: "last (split_lines (str_join [CHR 0x0A] head @ [CHR 0x0A] @ str_join '' '' ?cmd))
                 = str_join '' '' ?cmd"
    if "\<forall>w \<in> set ?cmd. CHR 0x0A \<notin> set w"
  proof -
    have "CHR 0x0A \<notin> set (str_join '' '' ?cmd)"
      using that by (intro str_join_avoids) simp_all
    then show ?thesis
      by (simp add: last_split_lines_append split_lines_one)
  qed
  from h written final show ?thesis by blast
qed

theorem gmx_script_final_line_witness:
  "gmx ok_host ''mdrun'' [''-v''] [(''-s'', ''nvt.tpr'')] []
       (Some ''md'') (Some ''/work'') (Some ''nvt'') None False None
     = (Inr (),
        [Created ''/work/nvt.slurm'',
         Wrote ''/work/nvt.slurm''
           (''#!/bin/bash'' @ [CHR 0x0A]
            @ [CHR 0x0A]
            @ ''#SBATCH --job-name=mdnvt'' @ [CHR 0x0A]
            @ ''#SBATCH --output=nvt.slurm.log'' @ [CHR 0x0A]
            @ ''#SBATCH --partition=andromeda'' @ [CHR 0x0A]
            @ ''#SBATCH --nodes=1-12'' @ [CHR 0x0A]
            @ ''#SBATCH --ntasks=10'' @ [CHR 0x0A]
            @ ''#SBATCH --ntasks-per-node=1'' @ [CHR 0x0A]
            @ [CHR 0x0A]
            @ ''# Required modules'' @ [CHR 0x0A]
            @ ''module load mpi/mpich-x86_64'' @ [CHR 0x0A]
            @ ''module load gromacs/2023.5-plumed'' @ [CHR 0x0A]
            @ [CHR 0x0A]
            @ ''# Run the molecular dynamics simulation'' @ [CHR 0x0A]
            @ ''mpirun gmx_mpi mdrun -v -s nvt.tpr''),
         Ran [''sbatch'', ''nvt.slurm''] (Some ''/work'') None])
   \<and> (\<exists>head. head \<noteq> [] \<and>
         take 2 (snd (gmx ok_host ''mdrun'' [''-v''] [(''-s'', ''nvt.tpr'')] []
                        (Some ''md'') (Some ''/work'') (Some ''nvt'') None False None))
           = [Created ''/work/nvt.slurm'',
              Wrote ''/work/nvt.slurm''
                (str_join [CHR 0x0A] head @ [CHR 0x0A] @ ''mpirun gmx_mpi mdrun -v -s nvt.tpr'')]
         \<and> last (split_lines
                   (str_join [CHR 0x0A] head @ [CHR 0x0A] @ ''mpirun gmx_mpi mdrun -v -s nvt.tpr''))
             = ''mpirun gmx_mpi mdrun -v -s nvt.tpr'')"
proof -
  have run: "gmx ok_host ''mdrun'' [''-v''] [(''-s'', ''nvt.tpr'')] []
       (Some ''md'') (Some ''/work'') (Some ''nvt'') None False None
     = (Inr (),
        [Created ''/work/nvt.slurm'',
         Wrote ''/work/nvt.slurm''
           (''#!/bin/bash'' @ [CHR 0x0A]
            @ [CHR 0x0A]
            @ ''#SBATCH --job-name=mdnvt'' @ [CHR 0x0A]
            @ ''#SBATCH --output=nvt.slurm.log'' @ [CHR 0x0A]
            @ ''#SBATCH --partition=andromeda'' @ [CHR 0x0A]
            @ ''#SBATCH --nodes=1-12'' @ [CHR 0x0A]
            @ ''#SBATCH --ntasks=10'' @ [CHR 0x0A]
            @ ''#SBATCH --ntasks-per-node=1'' @ [CHR 0x0A]
            @ [CHR 0x0A]
            @ ''# Required modules'' @ [CHR 0x0A]
            @ ''module load mpi/mpich-x86_64'' @ [CHR 0x0A]
            @ ''module load gromacs/2023.5-plumed'' @ [CHR 0x0A]
            @ [CHR 0x0A]
            @ ''# Run the molecular dynamics simulation'' @ [CHR 0x0A]
            @ ''mpirun gmx_mpi mdrun -v -s nvt.tpr''),
         Ran [''sbatch'', ''nvt.slurm''] (Some ''/work'') None])"
    by (simp add: gmx_def ok_host_def build_cmd_def batch_script_def merge_schdlr_def
          default_schdlr_def getitem_def bind_exn_def directive_def directive_or_empty_def
          newline_def Let_def)
  have cmd: "build_cmd ''mdrun'' [''-v''] [(''-s'', ''nvt.tpr'')] []
               = [''mpirun'', ''gmx_mpi'', ''mdrun'', ''-v'', ''-s'', ''nvt.tpr'']"
    by (simp add: build_cmd_def)
  have h6: "open_w ok_host (''/work'' @ ''/'' @ ''nvt'' @ ''.slurm'') = None"
    and h7: "\<forall>body. file_write ok_host (''/work'' @ ''/'' @ ''nvt'' @ ''.slurm'') body = None"
    by (simp_all add: ok_host_def)
  have h5: "\<forall>ov v. (None :: (string \<times> pyval) list option) = Some ov
              \<longrightarrow> (''modules'', v) \<in> set ov \<longrightarrow> (\<exists>ms. v = PList ms)"
    by simp
  from gmx_script_final_line [where h = ok_host and executable = "''mdrun''"
      and arguments = "[''-v'']" and inputs = "[(''-s'', ''nvt.tpr'')]" and outputs = "[]"
      and name = "Some ''md''" and nm = "''md''" and ensemble = "Some ''nvt''"
      and ens = "''nvt''" and path = "Some ''/work''" and pth = "''/work''"
      and scheduler = None and wait = False and stdin = None,
      OF refl refl refl refl h5 h6 h7]
  have "\<exists>head. head \<noteq> [] \<and>
         take 2 (snd (gmx ok_host ''mdrun'' [''-v''] [(''-s'', ''nvt.tpr'')] []
                        (Some ''md'') (Some ''/work'') (Some ''nvt'') None False None))
           = [Created ''/work/nvt.slurm'',
              Wrote ''/work/nvt.slurm''
                (str_join [CHR 0x0A] head @ [CHR 0x0A] @ ''mpirun gmx_mpi mdrun -v -s nvt.tpr'')]
         \<and> last (split_lines
                   (str_join [CHR 0x0A] head @ [CHR 0x0A] @ ''mpirun gmx_mpi mdrun -v -s nvt.tpr''))
             = ''mpirun gmx_mpi mdrun -v -s nvt.tpr''"
    unfolding cmd by (simp del: split_lines.simps, blast)
  with run show ?thesis by blast
qed

text \<open>
  C7, as the specification states it, fails: the words of the command are written as they
  are, so for an argument made of \<open>a\<close>, a newline character and \<open>b\<close> the command line
  spans two lines of the file, and the final line is \<open>b\<close>.
\<close>

theorem gmx_newline_argument_counterexample:
  "gmx ok_host ''mdrun'' [''a'' @ [CHR 0x0A] @ ''b''] [] []
       (Some ''md'') (Some ''/work'') (Some ''nvt'') None False None
     = (Inr (),
        [Created ''/work/nvt.slurm'',
         Wrote ''/work/nvt.slurm''
           (''#!/bin/bash'' @ [CHR 0x0A]
            @ [CHR 0x0A]
            @ ''#SBATCH --job-name=mdnvt'' @ [CHR 0x0A]
            @ ''#SBATCH --output=nvt.slurm.log'' @ [CHR 0x0A]
            @ ''#SBATCH --partition=andromeda'' @ [CHR 0x0A]
            @ ''#SBATCH --nodes=1-12'' @ [CHR 0x0A]
            @ ''#SBATCH --ntasks=10'' @ [CHR 0x0A]
            @ ''#SBATCH --ntasks-per-node=1'' @ [CHR 0x0A]
            @ [CHR 0x0A]
            @ ''# Required modules'' @ [CHR 0x0A]
            @ ''module load mpi/mpich-x86_64'' @ [CHR 0x0A]
            @ ''module load gromacs/2023.5-plumed'' @ [CHR 0x0A]
            @ [CHR 0x0A]
            @ ''# Run the molecular dynamics simulation'' @ [CHR 0x0A]
            @ ''mpirun gmx_mpi mdrun a'' @ [CHR 0x0A] @ ''b''),
         Ran [''sbatch'', ''nvt.slurm''] (Some ''/work'') None])
   \<and> str_join '' '' (build_cmd ''mdrun'' [''a'' @ [CHR 0x0A] @ ''b''] [] [])
       = ''mpirun gmx_mpi mdrun a'' @ [CHR 0x0A] @ ''b''
   \<and> last (split_lines
           (''#!/bin/bash'' @ [CHR 0x0A]
            @ [CHR 0x0A]
            @ ''#SBATCH --job-name=mdnvt'' @ [CHR 0x0A]
            @ ''#SBATCH --output=nvt.slurm.log'' @ [CHR 0x0A]
            @ ''#SBATCH --partition=andromeda'' @ [CHR 0x0A]
            @ ''#SBATCH --nodes=1-12'' @ [CHR 0x0A]
            @ ''#SBATCH --ntasks=10'' @ [CHR 0x0A]
            @ ''#SBATCH --ntasks-per-node=1'' @ [CHR 0x0A]
            @ [CHR 0x0A]
            @ ''# Required modules'' @ [CHR 0x0A]
            @ ''module load mpi/mpich-x86_64'' @ [CHR 0x0A]
            @ ''module load gromacs/2023.5-plumed'' @ [CHR 0x0A]
            @ [CHR 0x0A]
            @ ''# Run the molecular dynamics simulation'' @ [CHR 0x0A]
            @ ''mpirun gmx_mpi mdrun a'' @ [CHR 0x0A] @ ''b'')) = ''b''"
  by (simp add: gmx_def ok_host_def build_cmd_def batch_script_def merge_schdlr_def
        default_schdlr_def getitem_def bind_exn_def directive_def directive_or_empty_def
        newline_def Let_def)

section \<open>Failures of the host\<close>

text \<open>
  C8, as the code has it. Every exception raised by a library call of \<open>gmx\<close>
  (\<open>subprocess.run\<close> in direct mode, \<open>open\<close>, \<open>file.write\<close> and \<open>subprocess.run\<close> of
  \<open>sbatch\<close> in scheduled mode) is the result of \<open>gmx\<close>, unchanged, and nothing after the
  failing call happens. A process that was launched and completed is not a failure,
  whatever its return code: in direct mode its output is printed and \<open>gmx\<close> returns
  normally.
\<close>

theorem gmx_host_errors_propagate:
  "(executable \<noteq> ''mdrun'' \<and>
      run h (build_cmd executable arguments inputs outputs) path stdin True = Inl e
    \<longrightarrow> gmx h executable arguments inputs outputs name path ensemble scheduler wait stdin
          = (Inl e, []))
   \<and> (executable \<noteq> ''mdrun'' \<and>
      run h (build_cmd executable arguments inputs outputs) path stdin True = Inr p
    \<longrightarrow> gmx h executable arguments inputs outputs name path ensemble scheduler wait stdin
          = (Inr (), [Ran (build_cmd executable arguments inputs outputs) path stdin,
                      Printed (stdout p), Printed (stderr p)]))
   \<and> (executable = ''mdrun'' \<and> name = Some nm \<and> ensemble = Some ens \<and> path = Some pth \<and>
      batch_script h (merge_schdlr (default_schdlr nm ens) scheduler)
         (build_cmd executable arguments inputs outputs) = Inr script
    \<longrightarrow> (open_w h (pth @ ''/'' @ ens @ ''.slurm'') = Some e
          \<longrightarrow> gmx h executable arguments inputs outputs name path ensemble scheduler wait stdin
                = (Inl e, []))
       \<and> (open_w h (pth @ ''/'' @ ens @ ''.slurm'') = None \<and>
          file_write h (pth @ ''/'' @ ens @ ''.slurm'') (str_join newline script) = Some e
          \<longrightarrow> gmx h executable arguments inputs outputs name path ensemble scheduler wait stdin
                = (Inl e, [Created (pth @ ''/'' @ ens @ ''.slurm'')]))
       \<and> (open_w h (pth @ ''/'' @ ens @ ''.slurm'') = None \<and>
          file_write h (pth @ ''/'' @ ens @ ''.slurm'') (str_join newline script) = None \<and>
          run h (if wait then [''sbatch'', ''--wait'', ens @ ''.slurm'']
                 else [''sbatch'', ens @ ''.slurm'']) (Some pth) None False = Inl e
          \<longrightarrow> gmx h executable arguments inputs outputs name path ensemble scheduler wait stdin
                = (Inl e, [Created (pth @ ''/'' @ ens @ ''.slurm''),
                           Wrote (pth @ ''/'' @ ens @ ''.slurm'') (str_join newline script)])))"
  by (auto simp: gmx_def Let_def)

theorem gmx_host_errors_propagate_witness:
  "gmx no_tool_host ''grompp'' [] [(''-f'', ''nvt.mdp'')] [] None None None None False None
     = (Inl (LibError ''FileNotFoundError''), [])
   \<and> gmx exit1_host ''grompp'' [] [(''-f'', ''nvt.mdp'')] [] None None None None False None
     = (Inr (), [Ran [''gmx'', ''grompp'', ''-f'', ''nvt.mdp''] None None,
                 Printed [], Printed ''Fatal error''])
   \<and> gmx readonly_host ''mdrun'' [] [] [] (Some ''md'') (Some ''/work'') (Some ''nvt'') None
        False None
     = (Inl (LibError ''PermissionError''), [])
   \<and> fst (gmx full_disk_host ''mdrun'' [] [] [] (Some ''md'') (Some ''/work'') (Some ''nvt'') None
        False None)
     = Inl (LibError ''OSError 28'')
   \<and> fst (gmx no_tool_host ''mdrun'' [] [] [] (Some ''md'') (Some ''/work'') (Some ''nvt'') None
        True None)
     = Inl (LibError ''FileNotFoundError'')"
proof -
  let ?script = "[''#!/bin/bash'', [], ''#SBATCH --job-name=mdnvt'',
      ''#SBATCH --output=nvt.slurm.log'', ''#SBATCH --partition=andromeda'',
      ''#SBATCH --nodes=1-12'', ''#SBATCH --ntasks=10'', ''#SBATCH --ntasks-per-node=1'', [],
      ''# Required modules'', ''module load mpi/mpich-x86_64'',
      ''module load gromacs/2023.5-plumed'', [], ''# Run the molecular dynamics simulation'',
      ''mpirun gmx_mpi mdrun'']"
  have script: "batch_script h (merge_schdlr (default_schdlr ''md'' ''nvt'') None)
      (build_cmd ''mdrun'' [] [] []) = Inr ?script" for h
    by (simp add: batch_script_def merge_schdlr_def default_schdlr_def getitem_def bind_exn_def
          directive_def directive_or_empty_def build_cmd_def)
  have 1: "gmx no_tool_host ''grompp'' [] [(''-f'', ''nvt.mdp'')] [] None None None None False None
     = (Inl (LibError ''FileNotFoundError''), [])"
    using gmx_host_errors_propagate [where h = no_tool_host and executable = "''grompp''"
        and arguments = "[]" and inputs = "[(''-f'', ''nvt.mdp'')]" and outputs = "[]"
        and path = None and stdin = None and e = "LibError ''FileNotFoundError''"
        and name = None and ensemble = None and scheduler = None and wait = False]
    by (simp add: no_tool_host_def ok_host_def)
  have 2: "gmx exit1_host ''grompp'' [] [(''-f'', ''nvt.mdp'')] [] None None None None False None
     = (Inr (), [Ran [''gmx'', ''grompp'', ''-f'', ''nvt.mdp''] None None,
                 Printed [], Printed ''Fatal error''])"
    using gmx_host_errors_propagate [where h = exit1_host and executable = "''grompp''"
        and arguments = "[]" and inputs = "[(''-f'', ''nvt.mdp'')]" and outputs = "[]"
        and path = None and stdin = None
        and p = "\<lparr>returncode = 1, stdout = [], stderr = ''Fatal error''\<rparr>"
        and name = None and ensemble = None and scheduler = None and wait = False]
    by (simp add: exit1_host_def ok_host_def build_cmd_def)
  have 3: "gmx readonly_host ''mdrun'' [] [] [] (Some ''md'') (Some ''/work'') (Some ''nvt'') None
        False None = (Inl (LibError ''PermissionError''), [])"
    using gmx_host_errors_propagate [where h = readonly_host and executable = "''mdrun''"
        and arguments = "[]" and inputs = "[]" and outputs = "[]"
        and path = "Some ''/work''" and stdin = None and e = "LibError ''PermissionError''"
        and name = "Some ''md''" and ensemble = "Some ''nvt''" and scheduler = None
        and wait = False and nm = "''md''" and ens = "''nvt''" and pth = "''/work''"
        and script = ?script] script [of readonly_host]
    by (simp add: readonly_host_def ok_host_def)
  have 4: "fst (gmx full_disk_host ''mdrun'' [] [] [] (Some ''md'') (Some ''/work'') (Some ''nvt'')
        None False None) = Inl (LibError ''OSError 28'')"
    using gmx_host_errors_propagate [where h = full_disk_host and executable = "''mdrun''"
        and arguments = "[]" and inputs = "[]" and outputs = "[]"
        and path = "Some ''/work''" and stdin = None and e = "LibError ''OSError 28''"
        and name = "Some ''md''" and ensemble = "Some ''nvt''" and scheduler = None
        and wait = False and nm = "''md''" and ens = "''nvt''" and pth = "''/work''"
        and script = ?script] script [of full_disk_host]
    by (simp add: full_disk_host_def ok_host_def)
  have 5: "fst (gmx no_tool_host ''mdrun'' [] [] [] (Some ''md'') (Some ''/work'') (Some ''nvt'')
        None True None) = Inl (LibError ''FileNotFoundError'')"
    using gmx_host_errors_propagate [where h = no_tool_host and executable = "''mdrun''"
        and arguments = "[]" and inputs = "[]" and outputs = "[]"
        and path = "Some ''/work''" and stdin = None and e = "LibError ''FileNotFoundError''"
        and name = "Some ''md''" and ensemble = "Some ''nvt''" and scheduler = None
        and wait = True and nm = "''md''" and ens = "''nvt''" and pth = "''/work''"
        and script = ?script] script [of no_tool_host]
    by (simp add: no_tool_host_def ok_host_def)
  from 1 2 3 4 5 show ?thesis by blast
qed

text \<open>
  C8, as the specification states it, fails: \<open>subprocess.run\<close> is called without
  \<open>check=True\<close>, so a tool that exits with status 1 in direct mode raises nothing and
  \<open>gmx\<close> returns normally after printing the captured output.
\<close>

theorem gmx_nonzero_exit_counterexample:
  "run exit1_host (build_cmd ''grompp'' [] [(''-f'', ''nvt.mdp'')] [(''-o'', ''nvt.tpr'')])
       None None True
     = Inr \<lparr>returncode = 1, stdout = [], stderr = ''Fatal error''\<rparr>
   \<and> gmx exit1_host ''grompp'' [] [(''-f'', ''nvt.mdp'')] [(''-o'', ''nvt.tpr'')]
        None None None None False None
     = (Inr (), [Ran [''gmx'', ''grompp'', ''-f'', ''nvt.mdp'', ''-o'', ''nvt.tpr''] None None,
                 Printed [], Printed ''Fatal error''])"
  by (simp add: gmx_def exit1_host_def ok_host_def build_cmd_def)

section \<open>The density plot\<close>

text \<open>
  The name \<open>sns\<close> is not bound in the module, so the first iteration of the loop of
  \<open>xvg_multi_density\<close> raises: with at least one replica the call never returns normally
  and never reaches the kernel-density call.
\<close>

lemma resolve_sns:
  "resolve ''sns'' = Some (NameError (''name '' @ [CHR 0x27] @ ''sns'' @ [CHR 0x27] @ '' is not defined''))"
  by (simp add: resolve_def module_globals_def)

lemma density_loop_never_draws:
  "(\<forall>l. KdeDrawn l \<notin> set eff) \<Longrightarrow>
     (\<forall>l. KdeDrawn l \<notin> set (snd (density_loop ph path sufix label_prefix bandwidth is eff)))
     \<and> (is \<noteq> [] \<longrightarrow> (\<exists>e. fst (density_loop ph path sufix label_prefix bandwidth is eff) = Inl e))"
  by (cases "is") (auto simp: resolve_sns Let_def split: sum.splits)

lemma xvg_multi_density_always_raises:
  assumes "0 < replicas"
  shows "(\<exists>e. fst (xvg_multi_density ph title path ensemble xlabel ylabel label_prefix replicas
                     sufix bandwidth) = Inl e)
       \<and> (\<forall>l. KdeDrawn l \<notin> set (snd (xvg_multi_density ph title path ensemble xlabel ylabel
                     label_prefix replicas sufix bandwidth)))"
proof -
  from assms have ne: "[0..<nat replicas] \<noteq> []" by simp
  obtain r eff where le: "density_loop ph path sufix label_prefix bandwidth [0..<nat replicas] [] = (r, eff)"
    by (cases "density_loop ph path sufix label_prefix bandwidth [0..<nat replicas] []")
  from density_loop_never_draws [of "[]" ph path sufix label_prefix bandwidth "[0..<nat replicas]"] ne le
  obtain e where "r = Inl e" and "\<forall>l. KdeDrawn l \<notin> set eff" by auto
  with le show ?thesis
    by (auto simp: xvg_multi_density_def split: option.splits)
qed

text \<open>
  C9. The claim that \<open>xvg_multi_density\<close> draws one density curve per replica without a
  name-resolution failure does not hold of the code: with three replicas and every data
  file readable, the call raises \<open>NameError: name 'sns' is not defined\<close> after loading
  the first file, and no curve is drawn.
\<close>

theorem xvg_multi_density_name_error:
  "xvg_multi_density ok_plot_host ''RMSD'' ''/data'' ''rmsd'' ''Time (ps)'' ''RMSD (nm)''
       ''Replica'' 3 [] None
     = (Inl (NameError (''name '' @ [CHR 0x27] @ ''sns'' @ [CHR 0x27] @ '' is not defined'')),
        [Loaded ''/data/replica01.xvg''])"
  by (simp add: xvg_multi_density_def ok_plot_host_def resolve_sns pct_02d_def upt_conv_Cons)

section \<open>The separate-plot mode of \<open>xvg\<close>\<close>

lemma xvg_line_ok:
  assumes "\<forall>file. \<exists>d. loadtxt ph file = Inr d"
    and "\<forall>d t s x y l m p. draw_line ph d t s x y l m p = None"
  shows "xvg_line ph title subtitle path ensemble xlabel ylabel label sufix movavg
           = (Inr (), [Loaded (path @ ''/'' @ ensemble @ sufix @ ''.xvg''),
                       Saved (path @ ''/'' @ ensemble @ sufix @ ''.png'')])"
proof -
  obtain d where "loadtxt ph (path @ ''/'' @ ensemble @ sufix @ ''.xvg'') = Inr d"
    using assms(1) by blast
  then show ?thesis using assms(2) by (simp add: xvg_line_def)
qed

lemma replica_subtitle_ok:
  assumes "ensemble = ''min'' \<or> (\<exists>vs. values = Some vs \<and> i - 1 < length vs)"
  shows "\<exists>s. replica_subtitle ph ensemble measure' units values i = Inr s"
  using assms by (auto simp: replica_subtitle_def)

lemma xvg_loop_step:
  assumes "\<forall>file. \<exists>d. loadtxt ph file = Inr d"
    and "\<forall>d t s x y l m p. draw_line ph d t s x y l m p = None"
    and "ensemble = ''min'' \<or> (\<exists>vs. values = Some vs \<and> i - 1 < length vs)"
  shows "xvg_loop ph title path ensemble xlabel ylabel label measure' units values sufix movavg
           (i # is) html k eff
         = xvg_loop ph title path ensemble xlabel ylabel label measure' units values sufix movavg
             is (html @ gallery_cell path ensemble sufix i (clock ph k)) (Suc k)
             (eff @ [Loaded (replica_xvg path ensemble sufix i),
                     Saved (replica_png path ensemble sufix i)])"
proof -
  obtain s where s: "replica_subtitle ph ensemble measure' units values i = Inr s"
    using replica_subtitle_ok [OF assms(3)] by blast
  show ?thesis
    using s
    by (simp add: xvg_line_ok [OF assms(1,2)] Let_def gallery_cell_def replica_xvg_def
          replica_png_def)
qed

lemma map_clock_shift:
  "map (\<lambda>i. f i (clock ph (Suc k + (i - Suc a)))) [Suc a..<b]
     = map (\<lambda>i. f i (clock ph (k + (i - a)))) [Suc a..<b]"
proof (rule map_cong [OF refl])
  fix i assume "i \<in> set [Suc a..<b]"
  then have "Suc k + (i - Suc a) = k + (i - a)" by auto
  then show "f i (clock ph (Suc k + (i - Suc a))) = f i (clock ph (k + (i - a)))"
    by (rule arg_cong)
qed

lemma xvg_loop_upt:
  assumes "\<forall>file. \<exists>d. loadtxt ph file = Inr d"
    and "\<forall>d t s x y l m p. draw_line ph d t s x y l m p = None"
    and "ensemble = ''min'' \<or> (\<exists>vs. values = Some vs \<and> b - 1 \<le> length vs)"
    and "1 \<le> a"
  shows "xvg_loop ph title path ensemble xlabel ylabel label measure' units values sufix movavg
           [a..<b] html k eff
         = (Inr (html @ concat (map (\<lambda>i. gallery_cell path ensemble sufix i (clock ph (k + (i - a))))
                                  [a..<b])),
            eff @ concat (map (\<lambda>i. [Loaded (replica_xvg path ensemble sufix i),
                                       Saved (replica_png path ensemble sufix i)]) [a..<b]))"
  using assms(4)
proof (induction "b - a" arbitrary: a html k eff)
  case 0
  then show ?case by simp
next
  case (Suc n)
  then have lt: "a < b" and n: "n = b - Suc a" and a1: "1 \<le> Suc a" by simp_all
  have ok: "ensemble = ''min'' \<or> (\<exists>vs. values = Some vs \<and> a - 1 < length vs)"
    using assms(3) lt Suc.prems by auto
  have "xvg_loop ph title path ensemble xlabel ylabel label measure' units values sufix movavg
           [a..<b] html k eff
      = xvg_loop ph title path ensemble xlabel ylabel label measure' units values sufix movavg
           [Suc a..<b] (html @ gallery_cell path ensemble sufix a (clock ph k)) (Suc k)
           (eff @ [Loaded (replica_xvg path ensemble sufix a),
                   Saved (replica_png path ensemble sufix a)])"
    unfolding upt_conv_Cons [OF lt] by (rule xvg_loop_step [OF assms(1,2) ok])
  also have "\<dots> = (Inr ((html @ gallery_cell path ensemble sufix a (clock ph k))
              @ concat (map (\<lambda>i. gallery_cell path ensemble sufix i (clock ph (Suc k + (i - Suc a))))
                          [Suc a..<b])),
            (eff @ [Loaded (replica_xvg path ensemble sufix a),
                    Saved (replica_png path ensemble sufix a)])
              @ concat (map (\<lambda>i. [Loaded (replica_xvg path ensemble sufix i),
                                     Saved (replica_png path ensemble sufix i)]) [Suc a..<b]))"
    by (rule Suc.hyps(1) [OF n a1])
  also have "\<dots> = (Inr (html @ concat (map (\<lambda>i. gallery_cell path ensemble sufix i (clock ph (k + (i - a))))
                                  [a..<b])),
            eff @ concat (map (\<lambda>i. [Loaded (replica_xvg path ensemble sufix i),
                                       Saved (replica_png path ensemble sufix i)]) [a..<b]))"
    unfolding map_clock_shift [of "\<lambda>i t. gallery_cell path ensemble sufix i t"]
    by (simp add: upt_conv_Cons [OF lt])
  finally show ?case .
qed

lemma saved_images_replicas:
  "saved_images (concat (map (\<lambda>i. [Loaded (f i), Saved (g i)]) xs) @ [Displayed html])
     = map g xs"
  by (induction xs) simp_all

text \<open>
  C10, as the code has it. With \<open>replicas\<close> an integer \<open>r\<close> and \<open>multi_lines\<close> false,
  when \<open>ensemble\<close> is \<open>min\<close> or \<open>values\<close> is a list with an entry for each of the
  \<open>r - 1\<close> replicas (and the library calls succeed), \<open>xvg\<close> returns normally after
  reading and plotting exactly the replicas \<open>1, ..., r - 1\<close>, from the directories
  \<open>replica01\<close> to \<open>replica(r-1)\<close>, and displays a table with one image cell for each
  of them, a \<open></tr>\<close> after every third: \<open>r - 1\<close> images for \<open>r \<ge> 1\<close>, none for
  \<open>r = 1\<close>.
\<close>

theorem xvg_separate_plots_gallery:
  assumes "\<forall>file. \<exists>d. loadtxt ph file = Inr d"
    and "\<forall>d t s x y l m p. draw_line ph d t s x y l m p = None"
    and "\<forall>html. display ph html = None"
    and "ensemble = ''min'' \<or> (\<exists>vs. values = Some vs \<and> nat r - 1 \<le> length vs)"
  shows "xvg ph title path ensemble xlabel ylabel label measure' units values (Some r) sufix
             movavg False plot_type
           = (Inr (),
              concat (map (\<lambda>i.
                  [Loaded (path @ ''/replica'' @ pct_02d i @ ''/'' @ ensemble @ sufix @ ''.xvg''),
                   Saved (path @ ''/replica'' @ pct_02d i @ ''/'' @ ensemble @ sufix @ ''.png'')])
                [1..<nat r])
              @ [Displayed (''<table>''
                   @ concat (map (\<lambda>i.
                        ''<td><img src=\"'' @ path @ ''/replica'' @ pct_02d i @ ''/'' @ ensemble
                        @ sufix @ ''.png'' @ ''?'' @ clock ph (i - 1)
                        @ ''\" style=\"width:100%\"></td>''
                        @ (if i mod 3 = 0 then ''</tr>'' else []))
                      [1..<nat r])
                   @ ''</table>'')])
       \<and> saved_images (snd (xvg ph title path ensemble xlabel ylabel label measure' units values
                               (Some r) sufix movavg False plot_type))
           = map (\<lambda>i. path @ ''/replica'' @ pct_02d i @ ''/'' @ ensemble @ sufix @ ''.png'')
               [1..<nat r]
       \<and> length (saved_images (snd (xvg ph title path ensemble xlabel ylabel label measure' units
                               values (Some r) sufix movavg False plot_type)))
           = nat (r - 1)"
proof -
  have run: "xvg ph title path ensemble xlabel ylabel label measure' units values (Some r) sufix
             movavg False plot_type
           = (Inr (),
              concat (map (\<lambda>i. [Loaded (replica_xvg path ensemble sufix i),
                                 Saved (replica_png path ensemble sufix i)]) [1..<nat r])
              @ [Displayed (''<table>''
                   @ concat (map (\<lambda>i. gallery_cell path ensemble sufix i (clock ph (i - 1)))
                               [1..<nat r])
                   @ ''</table>'')])"
    using assms(3)
    by (simp add: xvg_def xvg_finish_def Let_def
          xvg_loop_upt [OF assms(1,2,4), of 1, simplified])
  have imgs: "saved_images (snd (xvg ph title path ensemble xlabel ylabel label measure' units values
                               (Some r) sufix movavg False plot_type))
           = map (replica_png path ensemble sufix) [1..<nat r]"
    unfolding run snd_conv by (rule saved_images_replicas)
  have len: "length (map (replica_png path ensemble sufix) [1..<nat r]) = nat (r - 1)"
    by simp
  show ?thesis
    unfolding imgs unfolding run
    using len
    by (simp add: gallery_cell_def img_cell_def replica_png_def replica_xvg_def)
qed

theorem xvg_separate_plots_gallery_witness:
  "xvg ok_plot_host ''Temperature'' ''/data'' ''temp'' ''Time (ps)'' ''T (K)'' ''run''
       (Some ''T'') (Some ''K'') (Some [(), (), ()]) (Some 4) [] 0 False ''values''
     = (Inr (),
        [Loaded ''/data/replica01/temp.xvg'', Saved ''/data/replica01/temp.png'',
         Loaded ''/data/replica02/temp.xvg'', Saved ''/data/replica02/temp.png'',
         Loaded ''/data/replica03/temp.xvg'', Saved ''/data/replica03/temp.png'',
         Displayed (''<table>''
           @ ''<td><img src=\"/data/replica01/temp.png?1700000000.25\" style=\"width:100%\"></td>''
           @ ''<td><img src=\"/data/replica02/temp.png?1700000001.25\" style=\"width:100%\"></td>''
           @ ''<td><img src=\"/data/replica03/temp.png?1700000002.25\" style=\"width:100%\"></td>''
           @ ''</tr>''
           @ ''</table>'')])
   \<and> xvg ok_plot_host ''Temperature'' ''/data'' ''temp'' ''Time (ps)'' ''T (K)'' ''run''
          (Some ''T'') (Some ''K'') (Some [(), (), ()]) (Some 1) [] 0 False ''values''
      = (Inr (), [Displayed ''<table></table>''])"
proof -
  have h1: "\<forall>file. \<exists>d. loadtxt ok_plot_host file = Inr d"
    and h2: "\<forall>d t s x y l m p. draw_line ok_plot_host d t s x y l m p = None"
    and h3: "\<forall>html. display ok_plot_host html = None"
    by (simp_all add: ok_plot_host_def)
  have v4: "''temp'' = ''min'' \<or> (\<exists>vs. Some [(), (), ()] = Some vs \<and> nat 4 - 1 \<le> length vs)"
    and v1: "''temp'' = ''min'' \<or> (\<exists>vs. Some [(), (), ()] = Some vs \<and> nat 1 - 1 \<le> length vs)"
    by simp_all
  have three: "[1..<nat 4] = [Suc 0, 2, 3]" and none: "[1..<nat 1] = []"
    by (simp_all add: upt_conv_Cons)
  have d1: "pct_02d (Suc 0) = ''01''" and d2: "pct_02d 2 = ''02''" and d3: "pct_02d 3 = ''03''"
    by (simp_all add: pct_02d_def)
  have c0: "clock ok_plot_host 0 = ''1700000000.25''"
    and c1: "clock ok_plot_host (Suc 0) = ''1700000001.25''"
    and c2: "clock ok_plot_host 2 = ''1700000002.25''"
    by (simp_all add: ok_plot_host_def)
  show ?thesis
    using xvg_separate_plots_gallery [OF h1 h2 h3 v4, of "''Temperature''" "''/data''"
        "''Time (ps)''" "''T (K)''" "''run''" "Some ''T''" "Some ''K''" "[]" 0 "''values''"]
      xvg_separate_plots_gallery [OF h1 h2 h3 v1, of "''Temperature''" "''/data''"
        "''Time (ps)''" "''T (K)''" "''run''" "Some ''T''" "Some ''K''" "[]" 0 "''values''"]
    unfolding three none
    by (simp add: d1 d2 d3 c0 c1 c2)
qed

text \<open>
  C10, as stated for every call, fails: with the default \<open>values=None\<close>, an ensemble
  other than \<open>min\<close> and three replicas, \<open>values[i - 1]\<close> raises \<open>TypeError\<close> in the first
  iteration, and nothing is read, plotted or displayed.
\<close>

theorem xvg_values_none_counterexample:
  "xvg ok_plot_host ''Temperature'' ''/data'' ''temp'' ''Time (ps)'' ''T (K)'' ''run''
       None None None (Some 3) [] 0 False ''values''
     = (Inl (TypeError ([CHR 0x27] @ ''NoneType'' @ [CHR 0x27] @ '' object is not subscriptable'')),
        [])"
  by (simp add: xvg_def replica_subtitle_def upt_conv_Cons)

section \<open>The moving-average overlay\<close>

lemma fold_exact_products:
  "length xs = n \<Longrightarrow>
     fold (\<lambda>(x, y) acc. acc + x * y) (zip xs (replicate n c)) a = a + c * sum_list xs"
  for c :: rat
proof (induction xs arbitrary: n a)
  case Nil
  then show ?case by simp
next
  case (Cons x xs)
  then obtain m where n: "n = Suc m" and m: "length xs = m" by (cases n) auto
  show ?case unfolding n using Cons.IH [OF m] by (simp add: algebra_simps)
qed

lemma dot_exact:
  "length xs = n \<Longrightarrow> dot (\<lambda>x. x) xs (replicate n c) = c * sum_list xs"
  using fold_exact_products [of xs n c 0] by (simp add: dot_def)

lemma moving_average_eval:
  assumes "1 \<le> w" and "w \<le> length ys"
  shows "moving_average rnd ys (int w)
           = Inr (map (\<lambda>k. dot rnd (take w (drop k ys)) (replicate w (rnd (1 / rnd (of_nat w)))))
                    [0..<length ys - w + 1])"
proof -
  from assms have "ys \<noteq> []" and "replicate w (rnd (1 / rnd (of_nat w))) \<noteq> []" by auto
  with assms show ?thesis
    by (simp add: moving_average_def np_convolve_valid_def Let_def)
qed

text \<open>
  C4, as the code has it. For a column of \<open>n\<close> values and a window \<open>w\<close> with
  \<open>1 \<le> w \<le> n\<close>, the overlay has exactly \<open>n - w + 1\<close> points, and the \<open>k\<close>-th point
  is computed from the \<open>w\<close> consecutive values starting at row \<open>k\<close> and from nothing
  else: it is the sum, accumulated in the arithmetic of the array, of the products of
  these values with \<open>1.0 / w\<close>. In exact arithmetic this is their unweighted mean.
\<close>

theorem moving_average_points:
  assumes "1 \<le> w" and "w \<le> length ys"
  shows "\<exists>avg. moving_average rnd ys (int w) = Inr avg
           \<and> length avg = length ys - w + 1
           \<and> (\<forall>k < length ys - w + 1.
                 avg ! k = dot rnd (take w (drop k ys)) (replicate w (rnd (1 / rnd (of_nat w)))))
           \<and> moving_average (\<lambda>x. x) ys (int w)
               = Inr (map (\<lambda>k. sum_list (take w (drop k ys)) / of_nat w)
                        [0..<length ys - w + 1])"
proof -
  have exact: "dot (\<lambda>x. x) (take w (drop k ys)) (replicate w (1 / of_nat w))
                 = sum_list (take w (drop k ys)) / of_nat w"
    if "k < length ys - w + 1" for k
  proof -
    from that assms have "length (take w (drop k ys)) = w" by simp
    from dot_exact [OF this] show ?thesis by simp
  qed
  have "map (\<lambda>k. dot (\<lambda>x. x) (take w (drop k ys)) (replicate w (1 / of_nat w)))
            [0..<length ys - w + 1]
          = map (\<lambda>k. sum_list (take w (drop k ys)) / of_nat w) [0..<length ys - w + 1]"
  proof (rule map_cong [OF refl])
    fix k assume "k \<in> set [0..<length ys - w + 1]"
    then have "k < length ys - w + 1" by auto
    then show "dot (\<lambda>x. x) (take w (drop k ys)) (replicate w (1 / of_nat w))
                 = sum_list (take w (drop k ys)) / of_nat w"
      by (rule exact)
  qed
  then have "moving_average (\<lambda>x. x) ys (int w)
               = Inr (map (\<lambda>k. sum_list (take w (drop k ys)) / of_nat w)
                        [0..<length ys - w + 1])"
    by (simp add: moving_average_eval [OF assms])
  moreover
  define avg where
    "avg = map (\<lambda>k. dot rnd (take w (drop k ys)) (replicate w (rnd (1 / rnd (of_nat w)))))
             [0..<length ys - w + 1]"
  have "moving_average rnd ys (int w) = Inr avg"
    unfolding avg_def by (rule moving_average_eval [OF assms])
  moreover have "length avg = length ys - w + 1"
    unfolding avg_def by (simp del: upt_Suc)
  moreover have "avg ! k = dot rnd (take w (drop k ys)) (replicate w (rnd (1 / rnd (of_nat w))))"
    if "k < length ys - w + 1" for k
    unfolding avg_def using that nth_map_upt [of k "length ys - w + 1" 0]
    by (simp del: upt_Suc)
  ultimately show ?thesis by blast
qed

theorem moving_average_points_witness:
  "(\<exists>avg. moving_average fl64 (map rat_of_nat [0..<100]) 10 = Inr avg \<and> length avg = 91)
   \<and> (\<exists>avg. moving_average (\<lambda>x. x) (map rat_of_nat [0..<100]) 10 = Inr avg
          \<and> length avg = 91 \<and> avg ! 0 = 45 / 10)"
proof -
  have w: "1 \<le> (10 :: nat)" and n: "(10 :: nat) \<le> length (map rat_of_nat [0..<100])"
    by simp_all
  have first: "sum_list (take 10 (drop 0 (map rat_of_nat [0..<100]))) = 45"
    by code_simp
  from moving_average_points [OF w n, of fl64]
  obtain avg where a: "moving_average fl64 (map rat_of_nat [0..<100]) (int 10) = Inr avg"
      "length avg = length (map rat_of_nat [0..<100]) - 10 + 1"
    and e: "moving_average (\<lambda>x. x) (map rat_of_nat [0..<100]) (int 10)
              = Inr (map (\<lambda>k. sum_list (take 10 (drop k (map rat_of_nat [0..<100]))) / of_nat 10)
                       [0..<length (map rat_of_nat [0..<100]) - 10 + 1])"
    by blast
  have len: "length (map rat_of_nat [0..<100]) - 10 + 1 = 91" by simp
  have "map (\<lambda>k. sum_list (take 10 (drop k (map rat_of_nat [0..<100]))) / of_nat 10) [0..<91] ! 0
          = 45 / 10"
    using nth_map_upt [of 0 91 0
        "\<lambda>k. sum_list (take 10 (drop k (map rat_of_nat [0..<100]))) / rat_of_nat 10"] first
    by (simp del: upt_Suc)
  with a e show ?thesis unfolding len by (auto simp del: upt_Suc)
qed

lemma fl64_window_entry: "fl64 (1 / fl64 10) = 3602879701896397 / 2 ^ 55"
  by code_simp

lemma fl64_product: "fl64 (3 * (3602879701896397 / 2 ^ 55)) = 5404319552844596 / 2 ^ 54"
  by code_simp

lemma fl64_stable: "fl64 (5404319552844596 / 2 ^ 54) = 5404319552844596 / 2 ^ 54"
  by code_simp

lemma fl64_zero: "fl64 0 = 0"
  by (simp add: fl64_def)

lemma dot_single_term:
  "dot fl64 [3, 0, 0, 0, 0, 0, 0, 0, 0, 0] (replicate 10 (3602879701896397 / 2 ^ 55))
     = 5404319552844596 / 2 ^ 54"
proof -
  have rep: "replicate 10 c = [c, c, c, c, c, c, c, c, c, c]" for c :: rat
    by (simp add: eval_nat_numeral)
  have first: "fl64 (0 + fl64 (3 * (3602879701896397 / 2 ^ 55))) = 5404319552844596 / 2 ^ 54"
    by (simp only: fl64_product add_0_left fl64_stable)
  have later: "fl64 (5404319552844596 / 2 ^ 54 + fl64 (0 * (3602879701896397 / 2 ^ 55)))
                 = 5404319552844596 / 2 ^ 54"
    by (simp only: mult_zero_left fl64_zero add_0_right fl64_stable)
  show ?thesis
    unfolding dot_def rep
    by (simp only: zip_Cons_Cons zip_Nil fold_simps prod.case first later)
qed

lemma fl64_rounded_mean: "fl64 (3 / 10) = 5404319552844595 / 2 ^ 54"
  by code_simp

text \<open>
  C4, as the specification states it, fails in float64: for the ten rows
  \<open>3, 0, ..., 0\<close> and the window 10 the only point of the overlay is
  \<open>fl(3 * fl(1/10)) = 0.30000000000000004\<close> (whatever the order of summation, all other
  terms being zero), while the mean is \<open>3/10\<close>, which float64 rounds to
  \<open>0.29999999999999999\<close>.
\<close>

theorem moving_average_rounding_counterexample:
  "moving_average fl64 [3, 0, 0, 0, 0, 0, 0, 0, 0, 0] 10 = Inr [5404319552844596 / 2 ^ 54]
   \<and> sum_list [3, 0, 0, 0, 0, 0, 0, 0, 0, 0 :: rat] / 10 = 3 / 10
   \<and> fl64 (3 / 10) = 5404319552844595 / 2 ^ 54
   \<and> (5404319552844596 / 2 ^ 54 :: rat) \<noteq> 3 / 10
   \<and> (5404319552844596 / 2 ^ 54 :: rat) \<noteq> 5404319552844595 / 2 ^ 54"
proof -
  let ?ys = "[3, 0, 0, 0, 0, 0, 0, 0, 0, 0 :: rat]"
  have w: "1 \<le> (10 :: nat)" and n: "(10 :: nat) \<le> length ?ys" by simp_all
  have "moving_average fl64 ?ys (int 10)
          = Inr (map (\<lambda>k. dot fl64 (take 10 (drop k ?ys))
                              (replicate 10 (fl64 (1 / fl64 (rat_of_nat 10)))))
                   [0..<length ?ys - 10 + 1])"
    by (rule moving_average_eval [OF w n])
  also have "[0..<length ?ys - 10 + 1] = [0]" by simp
  finally have "moving_average fl64 ?ys 10
                  = Inr [dot fl64 ?ys (replicate 10 (fl64 (1 / fl64 10)))]"
    by simp
  then have "moving_average fl64 ?ys 10 = Inr [5404319552844596 / 2 ^ 54]"
    by (simp only: fl64_window_entry dot_single_term)
  then show ?thesis
    by (simp add: fl64_rounded_mean)
qed

end
